theory Spec2Isabelle
  imports Main "HOL-Library.AList"
begin

section \<open>Values shared by the execution core of \<^verbatim>\<open>server-enhanced.js\<close>\<close>

text \<open>
  JavaScript strings are modelled as \<^typ>\<open>string\<close>: a \<^typ>\<open>char\<close> stands for a UTF-16 code
  unit below 256, and \<open>length\<close> for the \<^verbatim>\<open>.length\<close> of the JavaScript string (what the
  handlers compare with the cap). The bytes of such a text on a pipe or in a file are its
  UTF-8 encoding: one byte for a unit below 128, two bytes for the others.
\<close>

fun utf8_size :: "string \<Rightarrow> nat" where
  "utf8_size [] = 0"
| "utf8_size (c # cs) = (if (of_char c :: nat) < 128 then 1 else 2) + utf8_size cs"

text \<open>
  \<^verbatim>\<open>TEMP_DIR\<close> is \<^verbatim>\<open>path.join(__dirname, 'temp')\<close>; the image of the repository runs the
  server in \<^verbatim>\<open>/app\<close>. \<open>path_join\<close> is \<^verbatim>\<open>path.join\<close> on plain segments.
\<close>

definition TEMP_DIR :: string where
  "TEMP_DIR = ''/app/temp''"

definition path_join :: "string \<Rightarrow> string \<Rightarrow> string" where
  "path_join a b = a @ ''/'' @ b"

text \<open>
  A thrown value is a \<open>js_error\<close>:
  \<^item> \<open>Error m\<close> is \<^verbatim>\<open>new Error(m)\<close>, thrown by the code itself;
  \<^item> \<open>ReferenceError x\<close> is the engine's error for reading the \<^verbatim>\<open>let\<close>/\<^verbatim>\<open>const\<close>
    identifier \<open>x\<close> before its declaration has been initialised;
  \<^item> \<open>TypeError m\<close> is the engine's error with message \<open>m\<close> for reading a property of
    \<^verbatim>\<open>undefined\<close> or calling what is not a function;
  \<^item> \<open>SystemError c syscall path\<close> is the failure of a file system call with errno
    code \<open>c\<close>; its message is the platform's sentence: the code, its description, the
    system call and the quoted path.
\<close>

datatype errno = ENOENT | ENOTDIR | EEXIST | EISDIR | ENOTEMPTY

fun errno_name :: "errno \<Rightarrow> string" where
  "errno_name ENOENT = ''ENOENT''"
| "errno_name ENOTDIR = ''ENOTDIR''"
| "errno_name EEXIST = ''EEXIST''"
| "errno_name EISDIR = ''EISDIR''"
| "errno_name ENOTEMPTY = ''ENOTEMPTY''"

fun errno_text :: "errno \<Rightarrow> string" where
  "errno_text ENOENT = ''no such file or directory''"
| "errno_text ENOTDIR = ''not a directory''"
| "errno_text EEXIST = ''file already exists''"
| "errno_text EISDIR = ''illegal operation on a directory''"
| "errno_text ENOTEMPTY = ''directory not empty''"

datatype js_error =
    Error string
  | ReferenceError string
  | TypeError string
  | SystemError errno string string

fun message :: "js_error \<Rightarrow> string" where
  "message (Error m) = m"
| "message (ReferenceError x) = ''Cannot access '' @ [CHR 0x27] @ x @ [CHR 0x27] @ '' before initialization''"
| "message (TypeError m) = m"
| "message (SystemError c syscall path) =
     errno_name c @ '': '' @ errno_text c @ '', '' @ syscall @ '' '' @ [CHR 0x27] @ path @ [CHR 0x27]"

text \<open>Decimal rendering of a number inside a template literal; \<^verbatim>\<open>null\<close> renders as \<open>null\<close>.\<close>

definition digit_char :: "nat \<Rightarrow> char" where
  "digit_char d = ''0123456789'' ! (d mod 10)"

fun string_of_nat :: "nat \<Rightarrow> string" where
  "string_of_nat n =
     (if n < 10 then [digit_char n] else string_of_nat (n div 10) @ [digit_char (n mod 10)])"

declare string_of_nat.simps [simp del]

definition string_of_int :: "int \<Rightarrow> string" where
  "string_of_int i = (if i < 0 then ''-'' @ string_of_nat (nat (- i)) else string_of_nat (nat i))"

definition template_code :: "int option \<Rightarrow> string" where
  "template_code c = (case c of None \<Rightarrow> ''null'' | Some i \<Rightarrow> string_of_int i)"


section \<open>The file system under \<^verbatim>\<open>TEMP_DIR\<close>\<close>

text \<open>
  \<^verbatim>\<open>TEMP_DIR\<close> holds one entry per name. An entry is a plain file or a directory, each
  with its \<^verbatim>\<open>mtimeMs\<close> (in whole milliseconds); a directory lists its own entries, each a
  plain file with its content or a nested directory. \<open>w_root = None\<close> means that
  \<^verbatim>\<open>TEMP_DIR\<close> itself does not exist. \<open>w_now\<close> is what \<^verbatim>\<open>Date.now()\<close> returns.
  The modification time of a directory is the time at which it was made or at which an
  entry was last added to it or removed from it. A workspace directory
  \<^verbatim>\<open>path.join(TEMP_DIR, id)\<close> is named by its \<open>id\<close>.
\<close>

datatype entry = RegularFile string | Directory

type_synonym listing = "(string \<times> entry) list"

datatype root_entry = RootFile int | RootDir int listing

record world =
  w_root :: "(string \<times> root_entry) list option"
  w_now :: int

text \<open>The directory \<open>wd\<close> under \<^verbatim>\<open>TEMP_DIR\<close>, or the errno of opening it.\<close>

definition open_dir :: "string \<Rightarrow> world \<Rightarrow> errno + (int \<times> listing)" where
  "open_dir wd w =
     (case w_root w of
        None \<Rightarrow> Inl ENOENT
      | Some es \<Rightarrow>
          (case map_of es wd of
             None \<Rightarrow> Inl ENOENT
           | Some (RootFile _) \<Rightarrow> Inl ENOTDIR
           | Some (RootDir mt l) \<Rightarrow> Inr (mt, l)))"

definition put_dir :: "string \<Rightarrow> int \<Rightarrow> listing \<Rightarrow> world \<Rightarrow> world" where
  "put_dir wd mt l w = w\<lparr>w_root := map_option (AList.update wd (RootDir mt l)) (w_root w)\<rparr>"

text \<open>\<^verbatim>\<open>fs.mkdir(workDir, { recursive: true })\<close>: creates missing parents, accepts an existing directory.\<close>

definition fs_mkdir :: "string \<Rightarrow> world \<Rightarrow> js_error + world" where
  "fs_mkdir wd w =
     (case w_root w of
        None \<Rightarrow> Inr (w\<lparr>w_root := Some [(wd, RootDir (w_now w) [])]\<rparr>)
      | Some es \<Rightarrow>
          (case map_of es wd of
             None \<Rightarrow> Inr (w\<lparr>w_root := Some (es @ [(wd, RootDir (w_now w) [])])\<rparr>)
           | Some (RootFile _) \<Rightarrow> Inl (SystemError EEXIST ''mkdir'' (path_join TEMP_DIR wd))
           | Some (RootDir _ _) \<Rightarrow> Inr w))"

text \<open>\<^verbatim>\<open>fs.writeFile\<close> replaces the content of a plain file or adds a new one.\<close>

definition fs_writeFile :: "string \<Rightarrow> string \<Rightarrow> string \<Rightarrow> world \<Rightarrow> js_error + world" where
  "fs_writeFile wd name content w =
     (case open_dir wd w of
        Inl c \<Rightarrow> Inl (SystemError c ''open'' (path_join (path_join TEMP_DIR wd) name))
      | Inr (mt, l) \<Rightarrow>
          (case map_of l name of
             Some Directory \<Rightarrow>
               Inl (SystemError EISDIR ''open'' (path_join (path_join TEMP_DIR wd) name))
           | Some (RegularFile _) \<Rightarrow>
               Inr (put_dir wd mt (AList.update name (RegularFile content) l) w)
           | None \<Rightarrow>
               Inr (put_dir wd (w_now w) (AList.update name (RegularFile content) l) w)))"

definition fs_readdir :: "string \<Rightarrow> world \<Rightarrow> js_error + string list" where
  "fs_readdir wd w =
     (case open_dir wd w of
        Inl c \<Rightarrow> Inl (SystemError c ''scandir'' (path_join TEMP_DIR wd))
      | Inr (mt, l) \<Rightarrow> Inr (map fst l))"

definition fs_readdir_root :: "world \<Rightarrow> js_error + string list" where
  "fs_readdir_root w =
     (case w_root w of
        None \<Rightarrow> Inl (SystemError ENOENT ''scandir'' TEMP_DIR)
      | Some es \<Rightarrow> Inr (map fst es))"

text \<open>\<^verbatim>\<open>fs.unlink\<close> removes a plain file; it fails on a directory and on a missing name.\<close>

definition fs_unlink :: "string \<Rightarrow> string \<Rightarrow> world \<Rightarrow> js_error + world" where
  "fs_unlink wd name w =
     (case open_dir wd w of
        Inl c \<Rightarrow> Inl (SystemError c ''unlink'' (path_join (path_join TEMP_DIR wd) name))
      | Inr (mt, l) \<Rightarrow>
          (case map_of l name of
             None \<Rightarrow> Inl (SystemError ENOENT ''unlink'' (path_join (path_join TEMP_DIR wd) name))
           | Some Directory \<Rightarrow>
               Inl (SystemError EISDIR ''unlink'' (path_join (path_join TEMP_DIR wd) name))
           | Some (RegularFile _) \<Rightarrow> Inr (put_dir wd (w_now w) (AList.delete name l) w)))"

text \<open>\<^verbatim>\<open>fs.rmdir\<close> removes an empty directory only.\<close>

definition fs_rmdir :: "string \<Rightarrow> world \<Rightarrow> js_error + world" where
  "fs_rmdir wd w =
     (case open_dir wd w of
        Inl c \<Rightarrow> Inl (SystemError c ''rmdir'' (path_join TEMP_DIR wd))
      | Inr (mt, l) \<Rightarrow>
          (if l = [] then Inr (w\<lparr>w_root := map_option (AList.delete wd) (w_root w)\<rparr>)
           else Inl (SystemError ENOTEMPTY ''rmdir'' (path_join TEMP_DIR wd))))"

text \<open>\<^verbatim>\<open>fs.stat\<close>, as far as the sweeper reads it: \<^verbatim>\<open>isDirectory()\<close> and \<^verbatim>\<open>mtimeMs\<close>.\<close>

record stats =
  isDirectory :: bool
  mtimeMs :: int

definition fs_stat :: "string \<Rightarrow> world \<Rightarrow> js_error + stats" where
  "fs_stat name w =
     (case w_root w of
        None \<Rightarrow> Inl (SystemError ENOENT ''stat'' (path_join TEMP_DIR name))
      | Some es \<Rightarrow>
          (case map_of es name of
             None \<Rightarrow> Inl (SystemError ENOENT ''stat'' (path_join TEMP_DIR name))
           | Some (RootFile mt) \<Rightarrow> Inr \<lparr>isDirectory = False, mtimeMs = mt\<rparr>
           | Some (RootDir mt _) \<Rightarrow> Inr \<lparr>isDirectory = True, mtimeMs = mt\<rparr>))"


section \<open>Process Runner: \<^verbatim>\<open>executeProcess\<close>\<close>

subsection \<open>The child process handle\<close>

text \<open>
  The handlers use three things of the \<^verbatim>\<open>ChildProcess\<close> object that \<^verbatim>\<open>spawn\<close> returns:
  \<^verbatim>\<open>kill(signal)\<close>, the property \<^verbatim>\<open>killed\<close> and \<^verbatim>\<open>stdin\<close>. The platform's
  \<^verbatim>\<open>kill\<close> delivers the signal while the operating-system process still exists and then
  sets \<^verbatim>\<open>killed\<close>; once the process has exited it delivers nothing and leaves
  \<^verbatim>\<open>killed\<close> as it is. So \<^verbatim>\<open>killed\<close> says that a signal has been delivered, not that
  the process has ended. \<^verbatim>\<open>spawn\<close> is given the option \<^verbatim>\<open>timeout\<close>, for which the platform
  keeps a timer of its own (\<open>cp_timer\<close>, pending while it is \<open>Some\<close>): at its expiry the
  platform calls \<^verbatim>\<open>kill('SIGTERM')\<close> on the child, and it clears the timer when the process
  exits.
\<close>

datatype signal = SIGTERM | SIGKILL

datatype stdin_op = StdinWrite string | StdinEnd

record child =
  cp_alive :: bool
  cp_killed :: bool
  cp_delivered :: "signal list"
  cp_stdin :: "stdin_op list"
  cp_timer :: "nat option"

definition cp_kill :: "signal \<Rightarrow> child \<Rightarrow> child" where
  "cp_kill sig c =
     (if cp_alive c then c\<lparr>cp_killed := True, cp_delivered := cp_delivered c @ [sig]\<rparr> else c)"

subsection \<open>The promise and the closure state\<close>

record process_result =
  pr_stdout :: string
  pr_stderr :: string
  pr_exitCode :: "int option"
  pr_error :: "string option"

datatype settlement = Resolved process_result | Rejected js_error

text \<open>
  The state of one \<^verbatim>\<open>executeProcess\<close> call after \<^verbatim>\<open>spawn\<close> has returned: the closure
  variables \<^verbatim>\<open>stdout\<close>, \<^verbatim>\<open>stderr\<close>, \<^verbatim>\<open>killed\<close>, the child handle, every call of
  \<^verbatim>\<open>process.kill\<close> the handlers made (in order), the pending timers with their delays
  in milliseconds, and the promise (settled at most once: a later \<^verbatim>\<open>resolve\<close> or
  \<^verbatim>\<open>reject\<close> is ignored).
\<close>

record runner =
  r_stdout :: string
  r_stderr :: string
  r_killed :: bool
  r_child :: child
  r_kill_calls :: "signal list"
  r_timeout_timer :: "nat option"
  r_grace_timers :: "nat list"
  r_settled :: "settlement option"

definition output_cap :: nat where
  "output_cap = 1024 * 1024"

definition forced_message :: string where
  "forced_message = ''Process terminated: execution timeout or output limit exceeded''"

definition process_kill :: "signal \<Rightarrow> runner \<Rightarrow> runner" where
  "process_kill sig s =
     s\<lparr>r_kill_calls := r_kill_calls s @ [sig], r_child := cp_kill sig (r_child s)\<rparr>"

definition resolve :: "process_result \<Rightarrow> runner \<Rightarrow> runner" where
  "resolve r s = (if r_settled s = None then s\<lparr>r_settled := Some (Resolved r)\<rparr> else s)"

definition reject :: "js_error \<Rightarrow> runner \<Rightarrow> runner" where
  "reject e s = (if r_settled s = None then s\<lparr>r_settled := Some (Rejected e)\<rparr> else s)"

definition clearTimeout :: "runner \<Rightarrow> runner" where
  "clearTimeout s = s\<lparr>r_timeout_timer := None\<rparr>"

subsection \<open>The handlers, in the order of the source\<close>

text \<open>The callback of the outer \<^verbatim>\<open>setTimeout(..., timeout)\<close>.\<close>

definition on_timeout :: "runner \<Rightarrow> runner" where
  "on_timeout s =
     (let s1 = s\<lparr>r_killed := True\<rparr>;
          s2 = process_kill SIGTERM s1
      in s2\<lparr>r_grace_timers := r_grace_timers s2 @ [1000]\<rparr>)"

text \<open>The callback of the inner \<^verbatim>\<open>setTimeout(..., 1000)\<close>.\<close>

definition on_grace :: "runner \<Rightarrow> runner" where
  "on_grace s = (if \<not> cp_killed (r_child s) then process_kill SIGKILL s else s)"

definition on_stdout_data :: "string \<Rightarrow> runner \<Rightarrow> runner" where
  "on_stdout_data d s =
     (let s1 = s\<lparr>r_stdout := r_stdout s @ d\<rparr>
      in if length (r_stdout s1) > 1024 * 1024
         then process_kill SIGTERM (s1\<lparr>r_killed := True\<rparr>)
         else s1)"

definition on_stderr_data :: "string \<Rightarrow> runner \<Rightarrow> runner" where
  "on_stderr_data d s =
     (let s1 = s\<lparr>r_stderr := r_stderr s @ d\<rparr>
      in if length (r_stderr s1) > 1024 * 1024
         then process_kill SIGTERM (s1\<lparr>r_killed := True\<rparr>)
         else s1)"

definition on_error :: "js_error \<Rightarrow> runner \<Rightarrow> runner" where
  "on_error e s = reject e (clearTimeout s)"

definition on_close :: "int option \<Rightarrow> runner \<Rightarrow> runner" where
  "on_close code s =
     (let s1 = clearTimeout s
      in if r_killed s1
         then resolve \<lparr>pr_stdout = r_stdout s1, pr_stderr = r_stderr s1,
                       pr_exitCode = Some (- 1), pr_error = Some forced_message\<rparr> s1
         else resolve \<lparr>pr_stdout = r_stdout s1, pr_stderr = r_stderr s1,
                       pr_exitCode = code,
                       pr_error = (if code \<noteq> Some 0
                                   then Some (''Process exited with code '' @ template_code code)
                                   else None)\<rparr> s1)"

text \<open>\<^verbatim>\<open>if (input) { process.stdin.write(input); process.stdin.end(); }\<close>: the empty string is falsy.\<close>

definition send_input :: "string \<Rightarrow> runner \<Rightarrow> runner" where
  "send_input inp s =
     (if inp \<noteq> []
      then s\<lparr>r_child := (r_child s)\<lparr>cp_stdin := cp_stdin (r_child s) @ [StdinWrite inp, StdinEnd]\<rparr>\<rparr>
      else s)"

subsection \<open>What the event loop delivers\<close>

text \<open>
  \<open>TimerExpired\<close> and \<open>GraceExpired\<close> are the expiries of the outer and of an inner timer
  (a cleared or absent timer never runs its callback); \<open>ProcExit\<close> is the operating-system
  process ending, for which the source registers no handler; \<open>SpawnTimeout\<close> is the expiry
  of the platform's timer for the \<^verbatim>\<open>timeout\<close> option of \<^verbatim>\<open>spawn\<close>; \<open>CloseEv code\<close> is the
  \<^verbatim>\<open>close\<close> event, whose code is \<^verbatim>\<open>null\<close> (\<open>None\<close>) when a signal ended the process.
\<close>

datatype event =
    StdoutData string
  | StderrData string
  | TimerExpired
  | GraceExpired
  | ProcExit
  | SpawnTimeout
  | ErrorEv js_error
  | CloseEv "int option"

definition proc_exited :: "runner \<Rightarrow> runner" where
  "proc_exited s = s\<lparr>r_child := (r_child s)\<lparr>cp_alive := False, cp_timer := None\<rparr>\<rparr>"

definition spawn_timeout :: "runner \<Rightarrow> runner" where
  "spawn_timeout s =
     (case cp_timer (r_child s) of
        None \<Rightarrow> s
      | Some _ \<Rightarrow> s\<lparr>r_child := cp_kill SIGTERM ((r_child s)\<lparr>cp_timer := None\<rparr>)\<rparr>)"

fun step :: "event \<Rightarrow> runner \<Rightarrow> runner" where
  "step (StdoutData d) s = on_stdout_data d s"
| "step (StderrData d) s = on_stderr_data d s"
| "step TimerExpired s =
     (case r_timeout_timer s of None \<Rightarrow> s | Some _ \<Rightarrow> on_timeout (s\<lparr>r_timeout_timer := None\<rparr>))"
| "step GraceExpired s =
     (case r_grace_timers s of [] \<Rightarrow> s | _ # ts \<Rightarrow> on_grace (s\<lparr>r_grace_timers := ts\<rparr>))"
| "step ProcExit s = proc_exited s"
| "step SpawnTimeout s = spawn_timeout s"
| "step (ErrorEv e) s = on_error e s"
| "step (CloseEv code) s = on_close code (proc_exited s)"

fun run_events :: "event list \<Rightarrow> runner \<Rightarrow> runner" where
  "run_events [] s = s"
| "run_events (e # es) s = run_events es (step e s)"

text \<open>
  The state right after the synchronous part of the promise executor: the child has been
  spawned (with the platform's timer pending if the timeout is positive), the outer timer
  is pending, the stdin text has been sent (if any).
\<close>

definition spawned :: "nat \<Rightarrow> runner" where
  "spawned tmo =
     \<lparr>r_stdout = [], r_stderr = [], r_killed = False,
      r_child = \<lparr>cp_alive = True, cp_killed = False, cp_delivered = [], cp_stdin = [],
                 cp_timer = (if 0 < tmo then Some tmo else None)\<rparr>,
      r_kill_calls = [], r_timeout_timer = Some tmo, r_grace_timers = [], r_settled = None\<rparr>"

definition session :: "string \<Rightarrow> nat \<Rightarrow> event list \<Rightarrow> runner" where
  "session inp tmo evs = run_events evs (send_input inp (spawned tmo))"

subsection \<open>Spawning\<close>

text \<open>
  The options object of the \<^verbatim>\<open>spawn\<close> call is
  \<^verbatim>\<open>{ cwd, timeout, env: { ...process.env, HOME: cwd, PATH: process.env.PATH } }\<close>.
  An identifier is read through its binding. A \<^verbatim>\<open>const\<close> binding exists in its whole
  block and is uninitialised until its declaration has been evaluated; reading it earlier
  throws.
\<close>

datatype 'a binding = Uninitialised | Initialised 'a

fun read_binding :: "string \<Rightarrow> 'a binding \<Rightarrow> js_error + 'a" where
  "read_binding x Uninitialised = Inl (ReferenceError x)"
| "read_binding x (Initialised v) = Inr v"

record node_process =
  np_env :: "string \<rightharpoonup> string"

record spawn_options =
  so_cwd :: "string option"
  so_timeout :: nat
  so_env :: "string \<rightharpoonup> string"

definition spawn_options_literal ::
  "node_process binding \<Rightarrow> string option \<Rightarrow> nat \<Rightarrow> js_error + spawn_options" where
  "spawn_options_literal process_binding cwd tmo =
     (case read_binding ''process'' process_binding of
        Inl e \<Rightarrow> Inl e
      | Inr p \<Rightarrow>
          Inr \<lparr>so_cwd = cwd, so_timeout = tmo,
               so_env = ((np_env p)(''HOME'' := cwd))(''PATH'' := np_env p ''PATH'')\<rparr>)"

text \<open>
  The \<^verbatim>\<open>options\<close> parameter with the defaults of the destructuring
  \<^verbatim>\<open>{ cwd, input = '', timeout = 10000, memoryLimit = 256 }\<close>.
\<close>

record proc_options =
  po_cwd :: "string option"
  po_input :: "string option"
  po_timeout :: "nat option"
  po_memoryLimit :: "nat option"

definition input_of :: "proc_options \<Rightarrow> string" where
  "input_of opts = (case po_input opts of None \<Rightarrow> [] | Some i \<Rightarrow> i)"

definition timeout_of :: "proc_options \<Rightarrow> nat" where
  "timeout_of opts = (case po_timeout opts of None \<Rightarrow> 10000 | Some t \<Rightarrow> t)"

text \<open>
  What the operating system makes of a spawned child: the events the event loop delivers
  for it, in order, and the world as the child and the time spent left it.
\<close>

type_synonym os_behaviour =
  "string \<Rightarrow> string list \<Rightarrow> proc_options \<Rightarrow> world \<Rightarrow> event list \<times> world"

text \<open>
  Awaiting \<^verbatim>\<open>executeProcess(command, args, options)\<close> gives the settlement of its promise
  (\<open>None\<close>: it never settles) and the world afterwards. An exception thrown by the promise
  executor rejects the promise. The declaration is
  \<^verbatim>\<open>const process = spawn(command, args, {...})\<close> inside the executor, so while the
  arguments of \<^verbatim>\<open>spawn\<close> are evaluated the identifier \<^verbatim>\<open>process\<close> is this very
  \<^verbatim>\<open>const\<close>, not yet initialised, and not the global of the same name.
  \<open>executeProcess_with\<close> takes the binding as a parameter, so that the rest of the function
  can be stated for an initialised one as well; \<open>executeProcess\<close> is the function as declared.
\<close>

definition executeProcess_with ::
  "node_process binding \<Rightarrow> os_behaviour \<Rightarrow> string \<Rightarrow> string list \<Rightarrow> proc_options \<Rightarrow> world
     \<Rightarrow> settlement option \<times> world" where
  "executeProcess_with process_binding os command args opts w =
     (case spawn_options_literal process_binding (po_cwd opts) (timeout_of opts) of
        Inl e \<Rightarrow> (Some (Rejected e), w)
      | Inr so \<Rightarrow>
          (case os command args opts w of
             (evs, w') \<Rightarrow> (r_settled (session (input_of opts) (timeout_of opts) evs), w')))"

definition executeProcess ::
  "os_behaviour \<Rightarrow> string \<Rightarrow> string list \<Rightarrow> proc_options \<Rightarrow> world \<Rightarrow> settlement option \<times> world" where
  "executeProcess os command args opts w = executeProcess_with Uninitialised os command args opts w"


section \<open>Workspace Manager: \<^verbatim>\<open>cleanupWorkDir\<close>\<close>

text \<open>
  What an \<^verbatim>\<open>async\<close> function does: it returns a value, throws, or awaits a promise that
  never settles.
\<close>

datatype 'a completion = Return 'a | Throw js_error | Pending

datatype log_line =
    CleanupError string
  | CleanedUp string
  | PeriodicCleanupError js_error
  | Executing string nat
  | Completed int
  | ExecutionError js_error

datatype call = Mkdir string | ExecuteProcess string "string list"

text \<open>
  The server's state: the world, the console, and the calls of \<^verbatim>\<open>fs.mkdir\<close> and of
  \<^verbatim>\<open>executeProcess\<close> made so far.
\<close>

record state =
  st_world :: world
  st_console :: "log_line list"
  st_calls :: "call list"

text \<open>
  \<^verbatim>\<open>Promise.all(files.map(file => fs.unlink(...)))\<close> starts every unlink; each one
  succeeds or fails by itself, and the promise rejects with the first failure. The world
  returned is the one that all the unlinks leave.
\<close>

fun unlink_all :: "string \<Rightarrow> string list \<Rightarrow> world \<Rightarrow> js_error list \<times> world" where
  "unlink_all wd [] w = ([], w)"
| "unlink_all wd (f # fs) w =
     (case fs_unlink wd f w of
        Inl e \<Rightarrow> (let (errs, w') = unlink_all wd fs w in (e # errs, w'))
      | Inr w1 \<Rightarrow> unlink_all wd fs w1)"

text \<open>
  The \<^verbatim>\<open>try\<close> block of \<^verbatim>\<open>cleanupWorkDir\<close>. Other requests and the sweeper run while the
  function waits at an \<^verbatim>\<open>await\<close>; \<open>others1\<close> and \<open>others2\<close> are what they do to the world
  after \<^verbatim>\<open>readdir\<close> and after the unlinks.
\<close>

definition cleanup_try ::
  "(world \<Rightarrow> world) \<Rightarrow> (world \<Rightarrow> world) \<Rightarrow> string \<Rightarrow> world \<Rightarrow> unit completion \<times> world" where
  "cleanup_try others1 others2 workDir w =
     (case fs_readdir workDir w of
        Inl e \<Rightarrow> (Throw e, w)
      | Inr files \<Rightarrow>
          (case unlink_all workDir files (others1 w) of
             (e # _, w1) \<Rightarrow> (Throw e, w1)
           | ([], w1) \<Rightarrow>
               (case fs_rmdir workDir (others2 w1) of
                  Inl e \<Rightarrow> (Throw e, others2 w1)
                | Inr w2 \<Rightarrow> (Return (), w2))))"

definition cleanupWorkDir_among ::
  "(world \<Rightarrow> world) \<Rightarrow> (world \<Rightarrow> world) \<Rightarrow> string \<Rightarrow> state \<Rightarrow> unit completion \<times> state" where
  "cleanupWorkDir_among others1 others2 workDir st =
     (case cleanup_try others1 others2 workDir (st_world st) of
        (Throw error, w') \<Rightarrow>
          (Return (), st\<lparr>st_world := w', st_console := st_console st @ [CleanupError (message error)]\<rparr>)
      | (c, w') \<Rightarrow> (c, st\<lparr>st_world := w'\<rparr>))"

text \<open>\<open>cleanupWorkDir\<close> with nothing else running in between.\<close>

definition cleanupWorkDir :: "string \<Rightarrow> state \<Rightarrow> unit completion \<times> state" where
  "cleanupWorkDir workDir st = cleanupWorkDir_among (\<lambda>w. w) (\<lambda>w. w) workDir st"


section \<open>Reclamation Sweeper: the \<^verbatim>\<open>setInterval\<close> callback\<close>

text \<open>The body of the inner \<^verbatim>\<open>try\<close>, for one name of the listing.\<close>

definition sweep_entry_try :: "int \<Rightarrow> string \<Rightarrow> state \<Rightarrow> unit completion \<times> state" where
  "sweep_entry_try now file st =
     (case fs_stat file (st_world st) of
        Inl e \<Rightarrow> (Throw e, st)
      | Inr stats \<Rightarrow>
          (if isDirectory stats \<and> now - mtimeMs stats > 10 * 60 * 1000
           then (case cleanupWorkDir file st of
                   (Return _, st') \<Rightarrow> (Return (), st'\<lparr>st_console := st_console st' @ [CleanedUp file]\<rparr>)
                 | (c, st') \<Rightarrow> (c, st'))
           else (Return (), st)))"

text \<open>The inner \<^verbatim>\<open>try\<close> with its empty \<^verbatim>\<open>catch\<close>.\<close>

definition sweep_entry :: "int \<Rightarrow> string \<Rightarrow> state \<Rightarrow> unit completion \<times> state" where
  "sweep_entry now file st =
     (case sweep_entry_try now file st of
        (Throw err, st') \<Rightarrow> (Return (), st')
      | (c, st') \<Rightarrow> (c, st'))"

text \<open>The \<^verbatim>\<open>for\<close> loop: an iteration that does not complete normally ends the loop.\<close>

fun sweep_loop :: "int \<Rightarrow> string list \<Rightarrow> state \<Rightarrow> unit completion \<times> state" where
  "sweep_loop now [] st = (Return (), st)"
| "sweep_loop now (file # files) st =
     (case sweep_entry now file st of
        (Return _, st') \<Rightarrow> sweep_loop now files st'
      | (c, st') \<Rightarrow> (c, st'))"

definition periodic_cleanup :: "state \<Rightarrow> unit completion \<times> state" where
  "periodic_cleanup st =
     (case fs_readdir_root (st_world st) of
        Inl error \<Rightarrow> (Return (), st\<lparr>st_console := st_console st @ [PeriodicCleanupError error]\<rparr>)
      | Inr files \<Rightarrow>
          (case sweep_loop (w_now (st_world st)) files st of
             (Throw error, st') \<Rightarrow>
               (Return (), st'\<lparr>st_console := st_console st' @ [PeriodicCleanupError error]\<rparr>)
           | (c, st') \<Rightarrow> (c, st')))"


section \<open>Language Registry: \<^verbatim>\<open>LANGUAGE_CONFIG\<close>\<close>

text \<open>
  The fields of a configuration object as \<^verbatim>\<open>executeCode\<close> reads them. A field that the
  object does not have reads as \<^verbatim>\<open>undefined\<close> (\<open>None\<close>); \<^verbatim>\<open>compile: null\<close> is \<open>None\<close>
  as well, since the code only tests it for truthiness. The \<^verbatim>\<open>args\<close> function of a compile
  step is called with \<open>(filepath, outputPath)\<close> for \<^verbatim>\<open>cpp\<close> and with \<open>(filepath)\<close> otherwise;
  the one-parameter function of the \<^verbatim>\<open>java\<close> entry ignores the second argument of the model.
\<close>

datatype run_command = CommandName string | CommandFunction "string \<Rightarrow> string"

datatype run_args = ArgsArray "string list" | ArgsFunction "string \<Rightarrow> string list"

record compile_step =
  cs_command :: string
  cs_args :: "string \<Rightarrow> string \<Rightarrow> string list"

record run_step =
  rs_command :: run_command
  rs_args :: run_args

record language_config =
  extension :: "string option"
  compile :: "compile_step option"
  run :: "run_step option"
  timeout :: "nat option"
  memoryLimit :: "nat option"

definition cpp_config :: language_config where
  "cpp_config =
     \<lparr>extension = Some ''cpp'',
      compile = Some \<lparr>cs_command = ''g++'',
                       cs_args = (\<lambda>filepath outputPath.
                                    [filepath, ''-o'', outputPath, ''-std=c++17'', ''-Wall'', ''-O2''])\<rparr>,
      run = Some \<lparr>rs_command = CommandFunction (\<lambda>execPath. execPath), rs_args = ArgsArray []\<rparr>,
      timeout = Some 10000,
      memoryLimit = Some 256\<rparr>"

definition java_config :: language_config where
  "java_config =
     \<lparr>extension = Some ''java'',
      compile = Some \<lparr>cs_command = ''javac'', cs_args = (\<lambda>filepath outputPath. [filepath])\<rparr>,
      run = Some \<lparr>rs_command = CommandName ''java'',
                   rs_args = ArgsFunction (\<lambda>className. [''-Xmx256m'', className])\<rparr>,
      timeout = Some 10000,
      memoryLimit = Some 256\<rparr>"

definition python_config :: language_config where
  "python_config =
     \<lparr>extension = Some ''py'',
      compile = None,
      run = Some \<lparr>rs_command = CommandName ''python3'',
                   rs_args = ArgsFunction (\<lambda>filepath. [''-u'', filepath])\<rparr>,
      timeout = Some 10000,
      memoryLimit = Some 256\<rparr>"

definition javascript_config :: language_config where
  "javascript_config =
     \<lparr>extension = Some ''js'',
      compile = None,
      run = Some \<lparr>rs_command = CommandName ''node'',
                   rs_args = ArgsFunction (\<lambda>filepath. [''--max-old-space-size=256'', filepath])\<rparr>,
      timeout = Some 10000,
      memoryLimit = Some 256\<rparr>"

text \<open>
  \<^verbatim>\<open>LANGUAGE_CONFIG\<close> is an object literal, so a property read \<^verbatim>\<open>LANGUAGE_CONFIG[language]\<close>
  that finds no own property continues in \<^verbatim>\<open>Object.prototype\<close>. The names below are the
  properties of \<^verbatim>\<open>Object.prototype\<close>; each of them reads as a function or an object, which
  is truthy and has none of the five configuration fields.
\<close>

definition object_prototype_properties :: "string list" where
  "object_prototype_properties =
     [''constructor'', ''__defineGetter__'', ''__defineSetter__'', ''hasOwnProperty'',
      ''__lookupGetter__'', ''__lookupSetter__'', ''isPrototypeOf'', ''propertyIsEnumerable'',
      ''toString'', ''valueOf'', ''__proto__'', ''toLocaleString'']"

definition inherited_object :: language_config where
  "inherited_object =
     \<lparr>extension = None, compile = None, run = None, timeout = None, memoryLimit = None\<rparr>"

definition own_keys :: "string list" where
  "own_keys = [''cpp'', ''java'', ''python'', ''javascript'']"

text \<open>\<open>LANGUAGE_CONFIG language\<close> is \<open>None\<close> when the property read gives \<^verbatim>\<open>undefined\<close>.\<close>

definition LANGUAGE_CONFIG :: "string \<Rightarrow> language_config option" where
  "LANGUAGE_CONFIG language =
     (if language = ''cpp'' then Some cpp_config
      else if language = ''java'' then Some java_config
      else if language = ''python'' then Some python_config
      else if language = ''javascript'' then Some javascript_config
      else if language \<in> set object_prototype_properties then Some inherited_object
      else None)"


section \<open>Execution Pipeline: \<^verbatim>\<open>executeCode\<close>\<close>

subsection \<open>The entry-point name: \<^verbatim>\<open>code.match(/public\s+class\s+(\w+)/)\<close>\<close>

definition is_space :: "char \<Rightarrow> bool" where
  "is_space c \<longleftrightarrow> c \<in> set [CHR '' '', CHR 0x09, CHR 0x0A, CHR 0x0B, CHR 0x0C, CHR 0x0D, CHR 0xA0]"

definition is_word :: "char \<Rightarrow> bool" where
  "is_word c \<longleftrightarrow>
     (let n = (of_char c :: nat)
      in (48 \<le> n \<and> n \<le> 57) \<or> (65 \<le> n \<and> n \<le> 90) \<or> (97 \<le> n \<and> n \<le> 122) \<or> n = 95)"

definition strip_prefix :: "string \<Rightarrow> string \<Rightarrow> string option" where
  "strip_prefix p s = (if take (length p) s = p then Some (drop (length p) s) else None)"

text \<open>The pattern matched at the head of the text; the result is the capture group.\<close>

definition match_here :: "string \<Rightarrow> string option" where
  "match_here s =
     (case strip_prefix ''public'' s of
        None \<Rightarrow> None
      | Some r1 \<Rightarrow>
          (if takeWhile is_space r1 = [] then None
           else (case strip_prefix ''class'' (dropWhile is_space r1) of
                   None \<Rightarrow> None
                 | Some r2 \<Rightarrow>
                     (if takeWhile is_space r2 = [] then None
                      else (let w = takeWhile is_word (dropWhile is_space r2)
                            in if w = [] then None else Some w)))))"

text \<open>The first match, scanning from the left.\<close>

fun class_match :: "string \<Rightarrow> string option" where
  "class_match [] = match_here []"
| "class_match (c # cs) =
     (case match_here (c # cs) of Some w \<Rightarrow> Some w | None \<Rightarrow> class_match cs)"

definition class_name :: "string \<Rightarrow> string" where
  "class_name code = (case class_match code of Some w \<Rightarrow> w | None \<Rightarrow> ''Main'')"

subsection \<open>Paths and results\<close>

text \<open>A value inside a template literal: \<^verbatim>\<open>undefined\<close> renders as \<open>undefined\<close>.\<close>

definition template_string :: "string option \<Rightarrow> string" where
  "template_string v = (case v of None \<Rightarrow> ''undefined'' | Some s \<Rightarrow> s)"

text \<open>
  The object that \<^verbatim>\<open>executeCode\<close> returns. \<open>er_exitCode = None\<close>: the object has no
  \<^verbatim>\<open>exitCode\<close> property (the compile-failure result); \<open>Some None\<close>: the property is \<^verbatim>\<open>null\<close>.
\<close>

record execution_result =
  er_output :: string
  er_stderr :: string
  er_error :: "string option"
  er_executionTime :: int
  er_exitCode :: "int option option"

text \<open>
  Awaiting \<^verbatim>\<open>executeProcess(command, args, options)\<close>: the settlement of its promise
  (\<open>None\<close>: it never settles) and the world as the child and the time spent left it.
\<close>

type_synonym process_runner =
  "string \<Rightarrow> string list \<Rightarrow> proc_options \<Rightarrow> world \<Rightarrow> settlement option \<times> world"

definition source_filename :: "string \<Rightarrow> language_config \<Rightarrow> string \<Rightarrow> string" where
  "source_filename language config code =
     (if language = ''java''
      then class_name code @ ''.'' @ template_string (extension config)
      else ''program.'' @ template_string (extension config))"

subsection \<open>Preparing the workspace\<close>

text \<open>
  The first statements of the \<^verbatim>\<open>try\<close> block: create the work directory, determine the
  file name, write the code. \<open>uid\<close> is the value of \<^verbatim>\<open>uuidv4()\<close>; the workspace
  \<^verbatim>\<open>path.join(TEMP_DIR, id)\<close> is the entry \<open>uid\<close> of \<^verbatim>\<open>TEMP_DIR\<close>. The result is
  \<open>filepath\<close>.
\<close>

definition prepare_workspace ::
  "string \<Rightarrow> string \<Rightarrow> language_config \<Rightarrow> string \<Rightarrow> state \<Rightarrow> string completion \<times> state" where
  "prepare_workspace uid language config code st =
     (let st0 = st\<lparr>st_calls := st_calls st @ [Mkdir uid]\<rparr>
      in case fs_mkdir uid (st_world st0) of
           Inl e \<Rightarrow> (Throw e, st0)
         | Inr w1 \<Rightarrow>
             (let filename = source_filename language config code;
                  filepath = path_join (path_join TEMP_DIR uid) filename
              in case fs_writeFile uid filename code w1 of
                   Inl e \<Rightarrow> (Throw e, st0\<lparr>st_world := w1\<rparr>)
                 | Inr w2 \<Rightarrow> (Return filepath, st0\<lparr>st_world := w2\<rparr>)))"

subsection \<open>The compile step\<close>

definition compile_args :: "string \<Rightarrow> compile_step \<Rightarrow> string \<Rightarrow> string \<Rightarrow> string list" where
  "compile_args language c uid filepath =
     (if language = ''cpp''
      then cs_args c filepath (path_join (path_join TEMP_DIR uid) ''program'')
      else cs_args c filepath [])"

definition compile_options :: "string \<Rightarrow> language_config \<Rightarrow> proc_options" where
  "compile_options uid config =
     \<lparr>po_cwd = Some (path_join TEMP_DIR uid), po_input = None,
      po_timeout = timeout config, po_memoryLimit = None\<rparr>"

text \<open>\<open>Return None\<close>: the pipeline goes on to the run step; \<open>Return (Some r)\<close>: it returns \<open>r\<close>.\<close>

definition compile_phase ::
  "process_runner \<Rightarrow> string \<Rightarrow> string \<Rightarrow> language_config \<Rightarrow> string \<Rightarrow> int \<Rightarrow> state
     \<Rightarrow> execution_result option completion \<times> state" where
  "compile_phase run_process uid language config filepath startTime st =
     (case compile config of
        None \<Rightarrow> (Return None, st)
      | Some c \<Rightarrow>
          (let compileArgs = compile_args language c uid filepath;
               st1 = st\<lparr>st_calls := st_calls st @ [ExecuteProcess (cs_command c) compileArgs]\<rparr>
           in case run_process (cs_command c) compileArgs (compile_options uid config) (st_world st1) of
                (None, w') \<Rightarrow> (Pending, st1\<lparr>st_world := w'\<rparr>)
              | (Some (Rejected e), w') \<Rightarrow> (Throw e, st1\<lparr>st_world := w'\<rparr>)
              | (Some (Resolved compileResult), w') \<Rightarrow>
                  (if pr_exitCode compileResult \<noteq> Some 0
                   then (case cleanupWorkDir uid (st1\<lparr>st_world := w'\<rparr>) of
                           (Return _, st2) \<Rightarrow>
                             (Return (Some \<lparr>er_output = pr_stdout compileResult,
                                            er_stderr = pr_stderr compileResult,
                                            er_error = Some ''Compilation failed'',
                                            er_executionTime = w_now (st_world st2) - startTime,
                                            er_exitCode = None\<rparr>), st2)
                         | (Throw e, st2) \<Rightarrow> (Throw e, st2)
                         | (Pending, st2) \<Rightarrow> (Pending, st2))
                   else (Return None, st1\<lparr>st_world := w'\<rparr>))))"

subsection \<open>The run step\<close>

text \<open>
  \<open>runCommand\<close> and \<open>runArgs\<close>. Reading \<^verbatim>\<open>config.run.command\<close> or \<^verbatim>\<open>config.run.args\<close>
  throws when \<^verbatim>\<open>config.run\<close> is \<^verbatim>\<open>undefined\<close>, and so does calling an \<^verbatim>\<open>args\<close> that
  is not a function or spawning with a command or an argument list of the wrong type.
\<close>

definition run_invocation ::
  "string \<Rightarrow> language_config \<Rightarrow> string \<Rightarrow> string \<Rightarrow> string \<Rightarrow> js_error + (string \<times> string list)" where
  "run_invocation language config workDir filepath code =
     (if language = ''cpp''
      then (case run config of
              None \<Rightarrow> Inl (TypeError ''Cannot read properties of undefined (reading 'args')'')
            | Some r \<Rightarrow>
                (case rs_args r of
                   ArgsArray xs \<Rightarrow> Inr (path_join workDir ''program'', xs)
                 | ArgsFunction f \<Rightarrow> Inl (TypeError ''The args argument must be an array'')))
      else (case run config of
              None \<Rightarrow> Inl (TypeError ''Cannot read properties of undefined (reading 'command')'')
            | Some r \<Rightarrow>
                (case rs_args r of
                   ArgsArray xs \<Rightarrow> Inl (TypeError ''config.run.args is not a function'')
                 | ArgsFunction f \<Rightarrow>
                     (case rs_command r of
                        CommandFunction g \<Rightarrow> Inl (TypeError ''The file argument must be of type string'')
                      | CommandName c \<Rightarrow>
                          Inr (c, f (if language = ''java'' then class_name code else filepath))))))"

definition run_options :: "string \<Rightarrow> language_config \<Rightarrow> string \<Rightarrow> proc_options" where
  "run_options uid config input =
     \<lparr>po_cwd = Some (path_join TEMP_DIR uid), po_input = Some input,
      po_timeout = timeout config, po_memoryLimit = memoryLimit config\<rparr>"

definition run_phase ::
  "process_runner \<Rightarrow> string \<Rightarrow> string \<Rightarrow> language_config \<Rightarrow> string \<Rightarrow> string \<Rightarrow> string \<Rightarrow> int
     \<Rightarrow> state \<Rightarrow> execution_result completion \<times> state" where
  "run_phase run_process uid language config filepath code input startTime st =
     (case run_invocation language config (path_join TEMP_DIR uid) filepath code of
        Inl e \<Rightarrow> (Throw e, st)
      | Inr (runCommand, runArgs) \<Rightarrow>
          (let st1 = st\<lparr>st_calls := st_calls st @ [ExecuteProcess runCommand runArgs]\<rparr>
           in case run_process runCommand runArgs (run_options uid config input) (st_world st1) of
                (None, w') \<Rightarrow> (Pending, st1\<lparr>st_world := w'\<rparr>)
              | (Some (Rejected e), w') \<Rightarrow> (Throw e, st1\<lparr>st_world := w'\<rparr>)
              | (Some (Resolved runResult), w') \<Rightarrow>
                  (let executionTime = w_now w' - startTime
                   in case cleanupWorkDir uid (st1\<lparr>st_world := w'\<rparr>) of
                        (Return _, st2) \<Rightarrow>
                          (Return \<lparr>er_output = pr_stdout runResult,
                                   er_stderr = pr_stderr runResult,
                                   er_error = pr_error runResult,
                                   er_executionTime = executionTime,
                                   er_exitCode = Some (pr_exitCode runResult)\<rparr>, st2)
                      | (Throw e, st2) \<Rightarrow> (Throw e, st2)
                      | (Pending, st2) \<Rightarrow> (Pending, st2))))"

subsection \<open>The whole function\<close>

text \<open>The \<^verbatim>\<open>try\<close> block.\<close>

definition executeCode_try ::
  "process_runner \<Rightarrow> string \<Rightarrow> string \<Rightarrow> language_config \<Rightarrow> string \<Rightarrow> string \<Rightarrow> state
     \<Rightarrow> execution_result completion \<times> state" where
  "executeCode_try run_process uid language config code input st =
     (case prepare_workspace uid language config code st of
        (Return filepath, st1) \<Rightarrow>
          (let startTime = w_now (st_world st1)
           in case compile_phase run_process uid language config filepath startTime st1 of
                (Return None, st2) \<Rightarrow>
                  run_phase run_process uid language config filepath code input startTime st2
              | (Return (Some result), st2) \<Rightarrow> (Return result, st2)
              | (Throw e, st2) \<Rightarrow> (Throw e, st2)
              | (Pending, st2) \<Rightarrow> (Pending, st2))
      | (Throw e, st1) \<Rightarrow> (Throw e, st1)
      | (Pending, st1) \<Rightarrow> (Pending, st1))"

text \<open>\<^verbatim>\<open>catch (error) { await cleanupWorkDir(workDir).catch(() => {}); throw error; }\<close>\<close>

definition executeCode ::
  "process_runner \<Rightarrow> string \<Rightarrow> string \<Rightarrow> string \<Rightarrow> string \<Rightarrow> state
     \<Rightarrow> execution_result completion \<times> state" where
  "executeCode run_process uid language code input st =
     (case LANGUAGE_CONFIG language of
        None \<Rightarrow> (Throw (Error (''Unsupported language: '' @ language)), st)
      | Some config \<Rightarrow>
          (case executeCode_try run_process uid language config code input st of
             (Throw error, st1) \<Rightarrow>
               (case cleanupWorkDir uid st1 of
                  (Pending, st2) \<Rightarrow> (Pending, st2)
                | (_, st2) \<Rightarrow> (Throw error, st2))
           | (c, st1) \<Rightarrow> (c, st1)))"


section \<open>The route \<^verbatim>\<open>POST /execute\<close>\<close>

record request =
  rq_language :: "string option"
  rq_code :: "string option"
  rq_input :: "string option"

datatype response_body = ErrorBody string | ResultBody execution_result

record response =
  status :: nat
  body :: response_body

text \<open>\<open>None\<close>: the handler is still waiting, no response has been sent.\<close>

definition post_execute ::
  "process_runner \<Rightarrow> string \<Rightarrow> request \<Rightarrow> state \<Rightarrow> response option \<times> state" where
  "post_execute run_process uid rq st =
     (let requestStart = w_now (st_world st)
      in case (rq_language rq, rq_code rq) of
           (Some language, Some code) \<Rightarrow>
             (if language = [] \<or> code = []
              then (Some \<lparr>status = 400, body = ErrorBody ''Missing required fields: language and code''\<rparr>, st)
              else if LANGUAGE_CONFIG language = None
              then (Some \<lparr>status = 400,
                          body = ErrorBody (''Unsupported language: '' @ language @ ''. Supported: ''
                                            @ ''cpp, java, python, javascript'')\<rparr>, st)
              else if length code > 1024 * 1024
              then (Some \<lparr>status = 400, body = ErrorBody ''Code size exceeds limit (1MB)''\<rparr>, st)
              else if (case rq_input rq of None \<Rightarrow> False | Some i \<Rightarrow> i \<noteq> [] \<and> length i > 1024 * 1024)
              then (Some \<lparr>status = 400, body = ErrorBody ''Input size exceeds limit (1MB)''\<rparr>, st)
              else (let st1 = st\<lparr>st_console := st_console st @ [Executing language (length code)]\<rparr>
                    in case executeCode run_process uid language code
                              (case rq_input rq of None \<Rightarrow> [] | Some i \<Rightarrow> i) st1 of
                         (Return result, st2) \<Rightarrow>
                           (Some \<lparr>status = 200, body = ResultBody result\<rparr>,
                            st2\<lparr>st_console := st_console st2
                                   @ [Completed (w_now (st_world st2) - requestStart)]\<rparr>)
                       | (Throw error, st2) \<Rightarrow>
                           (Some \<lparr>status = 500,
                                  body = ErrorBody (if message error = [] then ''Internal server error''
                                                    else message error)\<rparr>,
                            st2\<lparr>st_console := st_console st2 @ [ExecutionError error]\<rparr>)
                       | (Pending, st2) \<Rightarrow> (None, st2)))
         | _ \<Rightarrow> (Some \<lparr>status = 400, body = ErrorBody ''Missing required fields: language and code''\<rparr>, st))"




section \<open>Notions used in the statements\<close>

subsection \<open>Process Runner\<close>

text \<open>The events whose handlers settle the promise.\<close>

fun terminal :: "event \<Rightarrow> bool" where
  "terminal (ErrorEv e) = True"
| "terminal (CloseEv c) = True"
| "terminal _ = False"

text \<open>
  An event forces termination in a state when it is the expiry of the pending outer timer,
  or a chunk of output with which the accumulated text of its stream exceeds the cap.
\<close>

fun forces :: "event \<Rightarrow> runner \<Rightarrow> bool" where
  "forces TimerExpired s = (r_timeout_timer s \<noteq> None)"
| "forces (StdoutData d) s = (length (r_stdout s @ d) > output_cap)"
| "forces (StderrData d) s = (length (r_stderr s @ d) > output_cap)"
| "forces _ s = False"


text \<open>The \<^verbatim>\<open>error\<close> field of the result a promise was resolved with.\<close>

definition result_error :: "settlement option \<Rightarrow> string option" where
  "result_error p = (case p of Some (Resolved r) \<Rightarrow> pr_error r | _ \<Rightarrow> None)"


subsection \<open>The streams of a trace\<close>

text \<open>The chunks a trace delivers on one stream, joined in order.\<close>

fun stdout_of :: "event list \<Rightarrow> string" where
  "stdout_of [] = []"
| "stdout_of (StdoutData d # es) = d @ stdout_of es"
| "stdout_of (e # es) = stdout_of es"

fun stderr_of :: "event list \<Rightarrow> string" where
  "stderr_of [] = []"
| "stderr_of (StderrData d # es) = d @ stderr_of es"
| "stderr_of (e # es) = stderr_of es"

text \<open>Below the cap on both streams unless forced.\<close>

definition within_cap :: "runner \<Rightarrow> bool" where
  "within_cap s \<longleftrightarrow>
     (\<not> r_killed s \<longrightarrow> length (r_stdout s) \<le> output_cap \<and> length (r_stderr s) \<le> output_cap)"

subsection \<open>Workspaces\<close>

fun is_directory :: "entry \<Rightarrow> bool" where
  "is_directory Directory = True"
| "is_directory (RegularFile c) = False"

definition only_files :: "listing \<Rightarrow> bool" where
  "only_files l = list_all (\<lambda>(n, e). \<not> is_directory e) l"

text \<open>A directory holds each name once.\<close>

fun wf_root_entry :: "root_entry \<Rightarrow> bool" where
  "wf_root_entry (RootFile mt) = True"
| "wf_root_entry (RootDir mt l) = distinct (map fst l)"

definition wf_world :: "world \<Rightarrow> bool" where
  "wf_world w =
     (case w_root w of
        None \<Rightarrow> True
      | Some es \<Rightarrow> distinct (map fst es) \<and> list_all (\<lambda>(n, e). wf_root_entry e) es)"


definition remove_dir :: "string \<Rightarrow> world \<Rightarrow> world" where
  "remove_dir wd w = w\<lparr>w_root := map_option (AList.delete wd) (w_root w)\<rparr>"

text \<open>
  What the unlinks of the names \<open>ns\<close> in the directory \<open>wd\<close> leave of its listing, the
  errors they report, and whether any of them removed a file.
\<close>

fun remaining :: "string list \<Rightarrow> listing \<Rightarrow> listing" where
  "remaining [] l = l"
| "remaining (n # ns) l =
     (case map_of l n of
        Some (RegularFile c) \<Rightarrow> remaining ns (AList.delete n l)
      | _ \<Rightarrow> remaining ns l)"

fun unlink_errors :: "string \<Rightarrow> string list \<Rightarrow> listing \<Rightarrow> js_error list" where
  "unlink_errors wd [] l = []"
| "unlink_errors wd (n # ns) l =
     (case map_of l n of
        Some (RegularFile c) \<Rightarrow> unlink_errors wd ns (AList.delete n l)
      | Some Directory \<Rightarrow>
          SystemError EISDIR ''unlink'' (path_join (path_join TEMP_DIR wd) n) # unlink_errors wd ns l
      | None \<Rightarrow>
          SystemError ENOENT ''unlink'' (path_join (path_join TEMP_DIR wd) n) # unlink_errors wd ns l)"

fun touched :: "string list \<Rightarrow> listing \<Rightarrow> bool" where
  "touched [] l = False"
| "touched (n # ns) l =
     (case map_of l n of
        Some (RegularFile c) \<Rightarrow> True
      | _ \<Rightarrow> touched ns l)"

definition has_files :: "listing \<Rightarrow> bool" where
  "has_files l = list_ex (\<lambda>(n, e). \<not> is_directory e) l"

subsection \<open>Sweeping\<close>

text \<open>
  What a sweep that read the time \<open>now\<close> leaves of one entry of \<^verbatim>\<open>TEMP_DIR\<close>, when the
  clock stands at \<open>clock\<close> while the entry is cleaned: \<open>None\<close> when the entry is gone
  afterwards.
\<close>

fun stale :: "int \<Rightarrow> root_entry \<Rightarrow> bool" where
  "stale now (RootDir mt l) = (now - mt > 10 * 60 * 1000)"
| "stale now (RootFile mt) = False"

fun swept_entry :: "int \<Rightarrow> int \<Rightarrow> root_entry \<Rightarrow> root_entry option" where
  "swept_entry now clock (RootFile mt) = Some (RootFile mt)"
| "swept_entry now clock (RootDir mt l) =
     (if now - mt > 10 * 60 * 1000
      then (if only_files l then None
            else Some (RootDir (if has_files l then clock else mt)
                               (filter (\<lambda>(n, e). is_directory e) l)))
      else Some (RootDir mt l))"

definition sweep_root ::
  "int \<Rightarrow> int \<Rightarrow> string \<Rightarrow> (string \<times> root_entry) list \<Rightarrow> (string \<times> root_entry) list" where
  "sweep_root now clock f es =
     (case Option.bind (map_of es f) (\<lambda>e. if stale now e then Some e else None) of
        None \<Rightarrow> es
      | Some e \<Rightarrow>
          (case swept_entry now clock e of
             None \<Rightarrow> AList.delete f es
           | Some e' \<Rightarrow> AList.update f e' es))"

subsection \<open>Concrete states\<close>

definition leftover_state :: state where
  "leftover_state =
     \<lparr>st_world =
        \<lparr>w_root = Some [(''ws'', RootDir 0 [(''program.py'', RegularFile ''x''), (''cache'', Directory)]),
                        (''old'', RootDir 0 [(''Main.java'', RegularFile ''y'')]),
                        (''fresh'', RootDir 9500000 [(''program.js'', RegularFile ''z'')]),
                        (''notes.txt'', RootFile 0)],
         w_now = 10000000\<rparr>,
      st_console = [], st_calls = []\<rparr>"

definition empty_state :: state where
  "empty_state = \<lparr>st_world = \<lparr>w_root = Some [], w_now = 1000\<rparr>, st_console = [], st_calls = []\<rparr>"

text \<open>
  The Process Runner with the global \<^verbatim>\<open>process\<close> in place of the uninitialised binding,
  in an environment with the given \<open>PATH\<close>.
\<close>

definition intended_runner :: "os_behaviour \<Rightarrow> process_runner" where
  "intended_runner os =
     executeProcess_with (Initialised \<lparr>np_env = [''PATH'' \<mapsto> ''/usr/local/bin:/usr/bin:/bin'']\<rparr>) os"


text \<open>A child that prints a line, exits with code 3 after 40 ms and leaves the files alone.\<close>

definition exiting_tool :: process_runner where
  "exiting_tool =
     intended_runner
       (\<lambda>command args opts w.
          ([StdoutData ''partial''] @ [CloseEv (Some 3)], w\<lparr>w_now := w_now w + 40\<rparr>))"



section \<open>Process Runner: properties of the handlers\<close>

lemmas handler_defs = on_timeout_def on_grace_def on_stdout_data_def on_stderr_data_def
  on_error_def on_close_def process_kill_def cp_kill_def resolve_def reject_def
  clearTimeout_def proc_exited_def spawn_timeout_def

lemma step_killed_mono: "r_killed s \<Longrightarrow> r_killed (step e s)"
  by (cases e) (auto simp: handler_defs Let_def split: option.splits list.splits)

lemma run_events_killed_mono: "r_killed s \<Longrightarrow> r_killed (run_events es s)"
  by (induction es arbitrary: s) (auto simp: step_killed_mono)

lemma step_settled_keep: "\<not> terminal e \<Longrightarrow> r_settled (step e s) = r_settled s"
  by (cases e) (auto simp: handler_defs Let_def split: option.splits list.splits)

lemma run_events_settled_keep:
  "\<forall>e\<in>set es. \<not> terminal e \<Longrightarrow> r_settled (run_events es s) = r_settled s"
  by (induction es arbitrary: s) (auto simp: step_settled_keep)

lemma run_events_append: "run_events (xs @ ys) s = run_events ys (run_events xs s)"
  by (induction xs arbitrary: s) auto

lemma forces_killed: "forces e s \<Longrightarrow> r_killed (step e s)"
  by (cases e) (auto simp: handler_defs Let_def output_cap_def split: option.splits)

lemma forces_not_terminal: "forces e s \<Longrightarrow> \<not> terminal e"
  by (cases e) auto

lemma close_when_killed:
  "r_killed s \<Longrightarrow> r_settled s = None \<Longrightarrow>
   r_settled (step (CloseEv code) s) =
     Some (Resolved \<lparr>pr_stdout = r_stdout s, pr_stderr = r_stderr s,
                     pr_exitCode = Some (- 1), pr_error = Some forced_message\<rparr>)"
  by (simp add: handler_defs Let_def)

lemma close_when_not_killed:
  "\<not> r_killed s \<Longrightarrow> r_settled s = None \<Longrightarrow>
   r_settled (step (CloseEv code) s) =
     Some (Resolved \<lparr>pr_stdout = r_stdout s, pr_stderr = r_stderr s,
                     pr_exitCode = code,
                     pr_error = (if code = Some 0 then None
                                 else Some (''Process exited with code '' @ template_code code))\<rparr>)"
  by (simp add: handler_defs Let_def)

lemma session_settled_start: "r_settled (send_input inp (spawned tmo)) = None"
  by (simp add: send_input_def spawned_def)

text \<open>
  A session that was not forced and closes with \<open>code\<close>: the result has the accumulated
  streams, the code itself, and an error exactly when the code is not 0.
\<close>

lemma natural_close_result:
  assumes "\<forall>e\<in>set evs. \<not> terminal e" and "\<not> r_killed (session inp tmo evs)"
  shows "r_settled (session inp tmo (evs @ [CloseEv code])) =
           Some (Resolved \<lparr>pr_stdout = r_stdout (session inp tmo evs),
                           pr_stderr = r_stderr (session inp tmo evs),
                           pr_exitCode = code,
                           pr_error = (if code = Some 0 then None
                                       else Some (''Process exited with code '' @ template_code code))\<rparr>)"
proof -
  have n: "r_settled (session inp tmo evs) = None"
    using assms(1) by (simp add: session_def run_events_settled_keep session_settled_start)
  have "session inp tmo (evs @ [CloseEv code]) = step (CloseEv code) (session inp tmo evs)"
    by (simp add: session_def run_events_append)
  then show ?thesis
    using close_when_not_killed [OF assms(2) n] by simp
qed

text \<open>
  \<^bold>\<open>Claim C1\<close>, as the code has it. Once an event has forced termination (the outer timer
  expired, or a chunk pushed a stream over the cap), whatever follows before the
  \<^verbatim>\<open>close\<close> event and whatever exit code \<^verbatim>\<open>close\<close> reports, the promise resolves with the
  streams accumulated so far, exit code \<open>-1\<close> and the one fixed error text
  \<open>forced_message\<close>, the same for both causes.
\<close>

theorem forced_result:
  assumes "r_settled s = None" and "forces ev s" and "\<forall>e\<in>set evs. \<not> terminal e"
  shows "r_settled (run_events (ev # evs @ [CloseEv code]) s) =
           Some (Resolved \<lparr>pr_stdout = r_stdout (run_events (ev # evs) s),
                           pr_stderr = r_stderr (run_events (ev # evs) s),
                           pr_exitCode = Some (- 1),
                           pr_error = Some forced_message\<rparr>)"
proof -
  let ?s1 = "step ev s"
  let ?s2 = "run_events evs ?s1"
  have k: "r_killed ?s2"
    using assms(2) by (simp add: forces_killed run_events_killed_mono)
  have "r_settled ?s1 = None"
    using assms(1,2) by (simp add: step_settled_keep forces_not_terminal)
  then have n: "r_settled ?s2 = None"
    using assms(3) by (simp add: run_events_settled_keep)
  have "run_events (ev # evs @ [CloseEv code]) s = step (CloseEv code) ?s2"
    by (simp add: run_events_append)
  then show ?thesis
    using close_when_killed [OF k n] by simp
qed

theorem forced_result_witness:
  "forces TimerExpired (spawned 10000) \<and>
   r_settled (run_events (TimerExpired # [StdoutData ''late''] @ [CloseEv (Some 143)]) (spawned 10000)) =
     Some (Resolved \<lparr>pr_stdout = ''late'', pr_stderr = [], pr_exitCode = Some (- 1),
                     pr_error = Some ''Process terminated: execution timeout or output limit exceeded''\<rparr>)"
  using forced_result [of "spawned 10000" TimerExpired "[StdoutData ''late'']" "Some 143"]
  by (simp add: spawned_def handler_defs Let_def forced_message_def)

text \<open>
  \<^bold>\<open>Claim C1\<close>, as stated, fails: a run ended by the timeout and a run ended by the output
  cap carry the same error text, so the text does not name the cause.
\<close>

theorem forced_error_same_for_both_causes:
  "result_error (r_settled (session [] 10000 [TimerExpired, CloseEv None]))
     = Some ''Process terminated: execution timeout or output limit exceeded'' \<and>
   result_error (r_settled (session [] 10000
                   [StdoutData (replicate 1048577 CHR ''a''), CloseEv None]))
     = Some ''Process terminated: execution timeout or output limit exceeded''"
  by (simp add: result_error_def session_def spawned_def send_input_def handler_defs Let_def
                forced_message_def)

text \<open>
  \<^bold>\<open>Claim C2\<close> at a failing input: a child that writes 1048577 characters to its standard
  output and ignores \<open>SIGTERM\<close>. The data handler calls \<^verbatim>\<open>process.kill('SIGTERM')\<close> and
  schedules no inner timer, so nothing follows one second later; when the outer timer
  expires it sends \<open>SIGTERM\<close> again, and the inner timer then finds
  \<^verbatim>\<open>process.killed\<close> set and sends nothing. The child is still alive and has received
  \<open>SIGTERM\<close> twice and \<open>SIGKILL\<close> never.
\<close>

theorem overflow_path_never_escalates:
  "r_kill_calls (session [] 10000 [StdoutData (replicate 1048577 CHR ''a'')]) = [SIGTERM] \<and>
   r_grace_timers (session [] 10000 [StdoutData (replicate 1048577 CHR ''a'')]) = [] \<and>
   r_kill_calls (session [] 10000 [StdoutData (replicate 1048577 CHR ''a''), GraceExpired]) = [SIGTERM] \<and>
   cp_delivered (r_child (session [] 10000
      [StdoutData (replicate 1048577 CHR ''a''), TimerExpired, GraceExpired])) = [SIGTERM, SIGTERM] \<and>
   cp_alive (r_child (session [] 10000
      [StdoutData (replicate 1048577 CHR ''a''), TimerExpired, GraceExpired]))"
  by (simp add: session_def spawned_def send_input_def handler_defs Let_def)

text \<open>
  With the expiry of the platform's own timer in the trace the child receives one more
  \<open>SIGTERM\<close>, and still no \<open>SIGKILL\<close>.
\<close>

lemma overflow_path_with_platform_timer:
  "cp_delivered (r_child (session [] 10000
      [StdoutData (replicate 1048577 CHR ''a''), SpawnTimeout, TimerExpired, GraceExpired]))
     = [SIGTERM, SIGTERM, SIGTERM] \<and>
   cp_alive (r_child (session [] 10000
      [StdoutData (replicate 1048577 CHR ''a''), SpawnTimeout, TimerExpired, GraceExpired]))"
  by (simp add: session_def spawned_def send_input_def handler_defs Let_def)

text \<open>The timeout path does send \<open>SIGTERM\<close> first and schedules the inner timer of 1000 ms.\<close>

lemma timeout_schedules_grace:
  "r_timeout_timer s = Some t \<Longrightarrow>
   r_kill_calls (step TimerExpired s) = r_kill_calls s @ [SIGTERM] \<and>
   r_grace_timers (step TimerExpired s) = r_grace_timers s @ [1000]"
  by (simp add: handler_defs Let_def)




text \<open>
  \<^bold>\<open>Claim C3\<close>, as the code has it. The cap is compared with the \<^verbatim>\<open>.length\<close> of the text
  decoded so far, that is with its number of UTF-16 code units, for each stream by itself:
  the handler of the chunk with which the text of either stream becomes longer than
  \<open>1024 * 1024\<close> sets \<^verbatim>\<open>killed\<close> and calls \<^verbatim>\<open>process.kill('SIGTERM')\<close> itself, before
  any further event; a live child receives the signal.
\<close>

theorem overflow_begins_termination:
  assumes "(ev = StdoutData d \<and> length (r_stdout s @ d) > output_cap) \<or>
           (ev = StderrData d \<and> length (r_stderr s @ d) > output_cap)"
  shows "r_killed (step ev s) \<and>
         r_kill_calls (step ev s) = r_kill_calls s @ [SIGTERM] \<and>
         (cp_alive (r_child s) \<longrightarrow>
            cp_delivered (r_child (step ev s)) = cp_delivered (r_child s) @ [SIGTERM])"
  using assms by (auto simp: handler_defs Let_def output_cap_def)

theorem overflow_begins_termination_witness:
  "length (r_stderr (spawned 10000) @ replicate 1048577 CHR ''e'') > output_cap \<and>
   cp_alive (r_child (spawned 10000)) \<and>
   r_killed (step (StderrData (replicate 1048577 CHR ''e'')) (spawned 10000)) \<and>
   r_kill_calls (step (StderrData (replicate 1048577 CHR ''e'')) (spawned 10000)) = [SIGTERM] \<and>
   cp_delivered (r_child (step (StderrData (replicate 1048577 CHR ''e'')) (spawned 10000))) = [SIGTERM]"
  using overflow_begins_termination [of "StderrData (replicate 1048577 CHR ''e'')"
          "replicate 1048577 CHR ''e''" "spawned 10000"]
  by (simp add: spawned_def output_cap_def)

text \<open>
  \<^bold>\<open>Claim C3\<close>, as stated, fails: a child writes 600000 times the letter U+00E9 to its
  standard output, which are 1200000 bytes and more than the cap of 1048576; the decoded
  text has 600000 code units, so the run is not marked and no signal is sent.
\<close>

lemma utf8_size_replicate: "utf8_size (replicate n c) = n * utf8_size [c]"
  by (induction n) auto

theorem cap_counts_code_units_not_bytes:
  "utf8_size (replicate 600000 (CHR 0xE9)) = 1200000 \<and>
   output_cap < 1200000 \<and>
   \<not> r_killed (session [] 10000 [StdoutData (replicate 600000 (CHR 0xE9))]) \<and>
   r_kill_calls (session [] 10000 [StdoutData (replicate 600000 (CHR 0xE9))]) = [] \<and>
   cp_delivered (r_child (session [] 10000 [StdoutData (replicate 600000 (CHR 0xE9))])) = []"
  by (simp add: utf8_size_replicate output_cap_def session_def spawned_def send_input_def
                handler_defs Let_def)

text \<open>Up to the cap nothing happens, and the two streams are measured apart.\<close>

lemma under_cap_no_termination:
  "length (r_stdout s @ d) \<le> output_cap \<Longrightarrow>
     r_killed (step (StdoutData d) s) = r_killed s \<and>
     r_kill_calls (step (StdoutData d) s) = r_kill_calls s"
  "length (r_stderr s @ d) \<le> output_cap \<Longrightarrow>
     r_killed (step (StderrData d) s) = r_killed s \<and>
     r_kill_calls (step (StderrData d) s) = r_kill_calls s"
  by (auto simp: handler_defs Let_def output_cap_def)

lemma streams_measured_apart:
  "\<not> r_killed (session [] 10000
       [StdoutData (replicate 1048576 CHR ''a''), StderrData (replicate 1048576 CHR ''b'')])"
  by (simp add: session_def spawned_def send_input_def handler_defs Let_def)

text \<open>
  \<^bold>\<open>Claim C9\<close> at any input: the promise executor throws while it evaluates the options of
  \<^verbatim>\<open>spawn\<close>, because \<^verbatim>\<open>process.env\<close> reads the \<^verbatim>\<open>const process\<close> being declared.
  The promise is rejected, nothing is spawned and the world is untouched.
\<close>

theorem executeProcess_rejects_before_spawn:
  "executeProcess os command args opts w = (Some (Rejected (ReferenceError ''process'')), w)"
  by (simp add: executeProcess_def executeProcess_with_def spawn_options_literal_def)

text \<open>
  Had the identifier denoted the global \<^verbatim>\<open>process\<close>, the environment would keep the
  ambient \<open>PATH\<close> and have \<open>HOME\<close> set to the working directory.
\<close>

lemma spawn_env_of_initialised:
  "spawn_options_literal (Initialised p) cwd tmo = Inr so \<Longrightarrow>
     so_env so ''PATH'' = np_env p ''PATH'' \<and> so_env so ''HOME'' = cwd \<and> so_cwd so = cwd"
  by (auto simp: spawn_options_literal_def)

lemma step_stdin_keep: "cp_stdin (r_child (step e s)) = cp_stdin (r_child s)"
  by (cases e) (auto simp: handler_defs Let_def split: option.splits list.splits)

lemma run_events_stdin_keep: "cp_stdin (r_child (run_events es s)) = cp_stdin (r_child s)"
  by (induction es arbitrary: s) (auto simp: step_stdin_keep)









lemma nonempty_input_written_and_ended:
  "inp \<noteq> [] \<Longrightarrow> cp_stdin (r_child (session inp tmo evs)) = [StdinWrite inp, StdinEnd]"
  by (simp add: session_def run_events_stdin_keep send_input_def spawned_def)

section \<open>Workspace Manager: properties of \<open>cleanupWorkDir\<close>\<close>

lemmas fs_defs = open_dir_def put_dir_def fs_mkdir_def fs_writeFile_def fs_readdir_def
  fs_readdir_root_def fs_unlink_def fs_rmdir_def fs_stat_def path_join_def TEMP_DIR_def

lemmas sweep_defs = periodic_cleanup_def sweep_entry_def sweep_entry_try_def cleanupWorkDir_def
  cleanupWorkDir_among_def cleanup_try_def

lemma open_dir_put_dir:
  "open_dir wd w = Inr (mt0, l0) \<Longrightarrow> open_dir wd (put_dir wd mt l w) = Inr (mt, l)"
  by (auto simp: open_dir_def put_dir_def update_conv' split: option.splits root_entry.splits)

lemma put_dir_put_dir: "put_dir wd mt l2 (put_dir wd mt1 l1 w) = put_dir wd mt l2 w"
  by (cases "w_root w") (simp_all add: put_dir_def)

lemma put_dir_same: "open_dir wd w = Inr (mt, l) \<Longrightarrow> put_dir wd mt l w = w"
  by (auto simp: open_dir_def put_dir_def update_triv split: option.splits root_entry.splits)

lemma w_now_put_dir: "w_now (put_dir wd mt l w) = w_now w"
  by (simp add: put_dir_def)

lemma unlink_all_closed:
  "open_dir wd w = Inr (mt, l) \<Longrightarrow>
   unlink_all wd ns w =
     (unlink_errors wd ns l,
      put_dir wd (if touched ns l then w_now w else mt) (remaining ns l) w)"
proof (induction ns arbitrary: l w mt)
  case Nil
  then show ?case by (simp add: put_dir_same)
next
  case (Cons n ns)
  show ?case
  proof (cases "map_of l n")
    case None
    then have "fs_unlink wd n w =
                 Inl (SystemError ENOENT ''unlink'' (path_join (path_join TEMP_DIR wd) n))"
      using Cons.prems by (simp add: fs_unlink_def)
    then show ?thesis
      using None Cons.IH [OF Cons.prems] by simp
  next
    case (Some e)
    show ?thesis
    proof (cases e)
      case Directory
      then have "fs_unlink wd n w =
                   Inl (SystemError EISDIR ''unlink'' (path_join (path_join TEMP_DIR wd) n))"
        using Some Cons.prems by (simp add: fs_unlink_def)
      then show ?thesis
        using Some Directory Cons.IH [OF Cons.prems] by simp
    next
      case (RegularFile c)
      let ?w1 = "put_dir wd (w_now w) (AList.delete n l) w"
      have u: "fs_unlink wd n w = Inr ?w1"
        using Some RegularFile Cons.prems by (simp add: fs_unlink_def)
      have o: "open_dir wd ?w1 = Inr (w_now w, AList.delete n l)"
        using Cons.prems by (rule open_dir_put_dir)
      show ?thesis
        using u Some RegularFile Cons.IH [OF o] by (simp add: put_dir_put_dir w_now_put_dir)
    qed
  qed
qed

lemma touched_iff:
  "touched ns l \<longleftrightarrow> (\<exists>n\<in>set ns. \<exists>c. map_of l n = Some (RegularFile c))"
proof (induction ns)
  case Nil
  then show ?case by simp
next
  case (Cons n ns)
  then show ?case
    by (cases "map_of l n") (auto split: entry.splits)
qed

lemma touched_all:
  assumes "distinct (map fst l)"
  shows "touched (map fst l) l \<longleftrightarrow> has_files l"
proof
  assume "touched (map fst l) l"
  then obtain n c where "map_of l n = Some (RegularFile c)"
    by (auto simp: touched_iff)
  then have "(n, RegularFile c) \<in> set l" by (rule map_of_SomeD)
  then show "has_files l" by (force simp: has_files_def list_ex_iff)
next
  assume "has_files l"
  then obtain n e where m: "(n, e) \<in> set l" and r: "\<not> is_directory e"
    by (auto simp: has_files_def list_ex_iff)
  from r obtain c where "e = RegularFile c" by (cases e) auto
  then have "map_of l n = Some (RegularFile c)"
    using assms m by simp
  moreover have "n \<in> set (map fst l)" using m by force
  ultimately show "touched (map fst l) l" by (auto simp: touched_iff)
qed

lemma remaining_distinct:
  "distinct (map fst l) \<Longrightarrow>
   remaining ns l = filter (\<lambda>(n, e). n \<notin> set ns \<or> is_directory e) l"
proof (induction ns arbitrary: l)
  case Nil
  then show ?case by simp
next
  case (Cons n ns)
  show ?case
  proof (cases "map_of l n")
    case None
    then have "n \<notin> fst ` set l" by (simp add: map_of_eq_None_iff)
    then have "filter (\<lambda>(n', e). n' \<notin> set (n # ns) \<or> is_directory e) l
             = filter (\<lambda>(n', e). n' \<notin> set ns \<or> is_directory e) l"
      by (intro filter_cong) (auto simp: image_iff)
    then show ?thesis using None Cons by simp
  next
    case (Some e)
    then have mem: "(n, e) \<in> set l" by (rule map_of_SomeD)
    have uniq: "\<And>e'. (n, e') \<in> set l \<Longrightarrow> e' = e"
      using Cons.prems mem by (meson eq_key_imp_eq_value)
    show ?thesis
    proof (cases e)
      case Directory
      have dir: "\<And>e'. (n, e') \<in> set l \<Longrightarrow> is_directory e'"
        using uniq Directory by fastforce
      have "filter (\<lambda>(n', e). n' \<notin> set (n # ns) \<or> is_directory e) l
             = filter (\<lambda>(n', e). n' \<notin> set ns \<or> is_directory e) l"
        by (intro filter_cong) (auto dest: dir)
      then show ?thesis using Some Directory Cons by simp
    next
      case (RegularFile c)
      have d: "distinct (map fst (AList.delete n l))"
        using Cons.prems by (rule distinct_delete)
      have "filter (\<lambda>(n', e). n' \<notin> set (n # ns) \<or> is_directory e) l
             = filter (\<lambda>(n', e). n' \<notin> set ns \<or> is_directory e) (AList.delete n l)"
      proof -
        have reg: "\<And>e'. (n, e') \<in> set l \<Longrightarrow> \<not> is_directory e'"
          using uniq RegularFile by fastforce
        then show ?thesis
          unfolding AList.delete_eq by (induction l) auto
      qed
      then show ?thesis using Some RegularFile Cons.IH [OF d] by simp
    qed
  qed
qed

lemma remaining_all: 
  "distinct (map fst l) \<Longrightarrow> remaining (map fst l) l = filter (\<lambda>(n, e). is_directory e) l"
  by (simp add: remaining_distinct) (intro filter_cong; force)

lemma unlink_errors_Nil:
  "distinct (map fst l) \<Longrightarrow> set ns \<subseteq> fst ` set l \<Longrightarrow> distinct ns \<Longrightarrow>
   unlink_errors wd ns l = [] \<longleftrightarrow> (\<forall>n\<in>set ns. \<forall>e. map_of l n = Some e \<longrightarrow> \<not> is_directory e)"
proof (induction ns arbitrary: l)
  case Nil
  then show ?case by simp
next
  case (Cons n ns)
  from Cons.prems obtain e where e: "map_of l n = Some e"
    by (cases "map_of l n") (auto simp: map_of_eq_None_iff)
  show ?case
  proof (cases e)
    case Directory
    then show ?thesis using e by auto
  next
    case (RegularFile c)
    have d: "distinct (map fst (AList.delete n l))"
      using Cons.prems(1) by (rule distinct_delete)
    have s: "set ns \<subseteq> fst ` set (AList.delete n l)"
    proof
      fix x assume x: "x \<in> set ns"
      then have "x \<noteq> n" using Cons.prems(3) by auto
      moreover have "x \<in> fst ` set l" using x Cons.prems(2) by auto
      ultimately show "x \<in> fst ` set (AList.delete n l)"
        by (auto simp: AList.delete_eq image_iff)
    qed
    have "\<And>m. m \<in> set ns \<Longrightarrow> map_of (AList.delete n l) m = map_of l m"
      using Cons.prems(3) by (auto simp: delete_conv')
    then show ?thesis
      using e RegularFile Cons.IH [OF d s] Cons.prems(3) by simp
  qed
qed

lemma wf_world_listing:
  "wf_world w \<Longrightarrow> open_dir wd w = Inr (mt, l) \<Longrightarrow> distinct (map fst l)"
  by (auto simp: wf_world_def open_dir_def list_all_iff split: option.splits root_entry.splits
           dest!: map_of_SomeD)

lemma unlink_errors_all_Nil:
  "distinct (map fst l) \<Longrightarrow> unlink_errors wd (map fst l) l = [] \<longleftrightarrow> only_files l"
proof -
  assume d: "distinct (map fst l)"
  have "unlink_errors wd (map fst l) l = [] \<longleftrightarrow>
        (\<forall>n\<in>set (map fst l). \<forall>e. map_of l n = Some e \<longrightarrow> \<not> is_directory e)"
    using d by (intro unlink_errors_Nil) auto
  also have "\<dots> \<longleftrightarrow> only_files l"
    using d by (auto simp: only_files_def list_all_iff)
  finally show ?thesis .
qed

lemma filter_dirs_Nil: "only_files l \<Longrightarrow> filter (\<lambda>(n, e). is_directory e) l = []"
  by (auto simp: only_files_def list_all_iff filter_empty_conv)

lemma cleanup_try_missing:
  "open_dir wd w = Inl c \<Longrightarrow>
   cleanup_try (\<lambda>w. w) (\<lambda>w. w) wd w = (Throw (SystemError c ''scandir'' (path_join TEMP_DIR wd)), w)"
  by (simp add: cleanup_try_def fs_readdir_def)

lemma cleanup_try_only_files:
  assumes o: "open_dir wd w = Inr (mt, l)" and d: "distinct (map fst l)" and f: "only_files l"
  shows "cleanup_try (\<lambda>w. w) (\<lambda>w. w) wd w = (Return (), remove_dir wd w)"
proof -
  let ?mt = "if touched (map fst l) l then w_now w else mt"
  have u: "unlink_all wd (map fst l) w = ([], put_dir wd ?mt [] w)"
    using unlink_all_closed [OF o, of "map fst l"] d f
    by (simp add: unlink_errors_all_Nil remaining_all filter_dirs_Nil)
  have "open_dir wd (put_dir wd ?mt [] w) = Inr (?mt, [])"
    using o by (rule open_dir_put_dir)
  then have r: "fs_rmdir wd (put_dir wd ?mt [] w) = Inr (remove_dir wd w)"
    by (cases "w_root w") (simp_all add: fs_rmdir_def remove_dir_def put_dir_def delete_update_same)
  show ?thesis
    using o u r by (simp add: cleanup_try_def fs_readdir_def)
qed

lemma cleanup_try_nested:
  assumes o: "open_dir wd w = Inr (mt, l)" and d: "distinct (map fst l)" and f: "\<not> only_files l"
  shows "snd (cleanup_try (\<lambda>w. w) (\<lambda>w. w) wd w) =
           put_dir wd (if has_files l then w_now w else mt)
             (filter (\<lambda>(n, e). is_directory e) l) w"
proof -
  let ?errs = "unlink_errors wd (map fst l) l"
  have "?errs \<noteq> []"
    using d f by (simp add: unlink_errors_all_Nil)
  then obtain e rest where "?errs = e # rest"
    by (cases ?errs) auto
  then have u: "unlink_all wd (map fst l) w =
                  (e # rest, put_dir wd (if has_files l then w_now w else mt)
                               (filter (\<lambda>(n, e). is_directory e) l) w)"
    using unlink_all_closed [OF o, of "map fst l"] d by (simp add: remaining_all touched_all)
  show ?thesis
    using o u by (simp add: cleanup_try_def fs_readdir_def)
qed

lemma cleanup_try_not_pending: "fst (cleanup_try o1 o2 wd w) \<noteq> Pending"
  by (auto simp: cleanup_try_def split: sum.splits prod.splits list.splits)

lemma cleanupWorkDir_among_returns: "fst (cleanupWorkDir_among o1 o2 wd st) = Return ()"
proof (cases "cleanup_try o1 o2 wd (st_world st)")
  case (Pair c w')
  then have "c \<noteq> Pending" using cleanup_try_not_pending [of o1 o2 wd "st_world st"] by simp
  then show ?thesis using Pair by (cases c) (simp_all add: cleanupWorkDir_among_def)
qed

lemma cleanupWorkDir_returns: "fst (cleanupWorkDir wd st) = Return ()"
  by (simp add: cleanupWorkDir_def cleanupWorkDir_among_returns)

lemma cleanupWorkDir_world:
  "st_world (snd (cleanupWorkDir wd st)) = snd (cleanup_try (\<lambda>w. w) (\<lambda>w. w) wd (st_world st))"
  by (cases "cleanup_try (\<lambda>w. w) (\<lambda>w. w) wd (st_world st)")
     (auto simp: cleanupWorkDir_def cleanupWorkDir_among_def split: completion.splits)

lemma open_dir_remove_dir: "open_dir wd (remove_dir wd w) = Inl ENOENT"
  by (cases "w_root w") (simp_all add: open_dir_def remove_dir_def delete_conv')

lemma only_dirs_not_only_files:
  "l \<noteq> [] \<Longrightarrow> \<not> only_files (filter (\<lambda>(n, e). is_directory e) l) \<or> only_files l"
  by (auto simp: only_files_def list_all_iff)

lemma cleanup_try_idem:
  assumes "wf_world w"
  shows "snd (cleanup_try (\<lambda>w. w) (\<lambda>w. w) wd (snd (cleanup_try (\<lambda>w. w) (\<lambda>w. w) wd w)))
           = snd (cleanup_try (\<lambda>w. w) (\<lambda>w. w) wd w)"
proof (cases "open_dir wd w")
  case (Inl e)
  then show ?thesis by (simp add: cleanup_try_missing)
next
  case (Inr p)
  obtain mt l where p: "p = (mt, l)" by (cases p)
  have o: "open_dir wd w = Inr (mt, l)" using Inr p by simp
  have d: "distinct (map fst l)" using assms o by (rule wf_world_listing)
  show ?thesis
  proof (cases "only_files l")
    case True
    then show ?thesis
      using cleanup_try_only_files [OF o d] by (simp add: cleanup_try_missing open_dir_remove_dir)
  next
    case False
    let ?l' = "filter (\<lambda>(n, e). is_directory e) l"
    let ?mt = "if has_files l then w_now w else mt"
    let ?w' = "put_dir wd ?mt ?l' w"
    have o': "open_dir wd ?w' = Inr (?mt, ?l')" using o by (rule open_dir_put_dir)
    have d': "distinct (map fst ?l')" using d by (simp add: distinct_map_filter)
    have f': "\<not> only_files ?l'"
      using False by (auto simp: only_files_def list_all_iff)
    have 1: "filter (\<lambda>(n, e). is_directory e) ?l' = ?l'"
      by (induction l) auto
    have 2: "\<not> has_files ?l'"
      by (auto simp: has_files_def list_ex_iff)
    have "snd (cleanup_try (\<lambda>w. w) (\<lambda>w. w) wd ?w') = ?w'"
      using cleanup_try_nested [OF o' d' f'] 1 2 by (simp add: put_dir_put_dir)
    then show ?thesis
      using cleanup_try_nested [OF o d False] by simp
  qed
qed

text \<open>
  \<^bold>\<open>Claim C7\<close>. \<open>cleanupWorkDir\<close> completes normally in every state, whatever other
  requests or the sweeper do to the files between its steps (so also for a workspace that is gone already or
  loses files meanwhile); an error of its \<^verbatim>\<open>try\<close> block is written to the console and
  goes no further; and cleaning a workspace a second time leaves the files as the first
  time left them.
\<close>

theorem cleanupWorkDir_never_throws_idempotent:
  "fst (cleanupWorkDir_among others1 others2 workDir st) = Return () \<and>
   (\<forall>e w'. cleanup_try others1 others2 workDir (st_world st) = (Throw e, w') \<longrightarrow>
      st_console (snd (cleanupWorkDir_among others1 others2 workDir st))
        = st_console st @ [CleanupError (message e)]) \<and>
   (wf_world (st_world st) \<longrightarrow>
      st_world (snd (cleanupWorkDir workDir (snd (cleanupWorkDir workDir st))))
        = st_world (snd (cleanupWorkDir workDir st)))"
proof (intro conjI allI impI)
  show "fst (cleanupWorkDir_among others1 others2 workDir st) = Return ()"
    by (rule cleanupWorkDir_among_returns)
next
  fix e w'
  assume "cleanup_try others1 others2 workDir (st_world st) = (Throw e, w')"
  then show "st_console (snd (cleanupWorkDir_among others1 others2 workDir st))
               = st_console st @ [CleanupError (message e)]"
    by (simp add: cleanupWorkDir_among_def)
next
  assume "wf_world (st_world st)"
  then show "st_world (snd (cleanupWorkDir workDir (snd (cleanupWorkDir workDir st))))
               = st_world (snd (cleanupWorkDir workDir st))"
    by (simp add: cleanupWorkDir_world cleanup_try_idem)
qed

theorem cleanupWorkDir_never_throws_idempotent_witness:
  "wf_world (st_world leftover_state) \<and>
   cleanup_try (\<lambda>w. w) (\<lambda>w. w) ''ws'' (st_world leftover_state)
     = (Throw (SystemError EISDIR ''unlink'' ''/app/temp/ws/cache''),
        put_dir ''ws'' 10000000 [(''cache'', Directory)] (st_world leftover_state)) \<and>
   fst (cleanupWorkDir_among (\<lambda>w. w) (\<lambda>w. w) ''ws'' leftover_state) = Return () \<and>
   st_console (snd (cleanupWorkDir_among (\<lambda>w. w) (\<lambda>w. w) ''ws'' leftover_state))
     = [CleanupError (message (SystemError EISDIR ''unlink'' ''/app/temp/ws/cache''))] \<and>
   st_world (snd (cleanupWorkDir ''ws'' (snd (cleanupWorkDir ''ws'' leftover_state))))
     = st_world (snd (cleanupWorkDir ''ws'' leftover_state))"
proof -
  have wf: "wf_world (st_world leftover_state)"
    by (simp add: leftover_state_def wf_world_def)
  have t: "cleanup_try (\<lambda>w. w) (\<lambda>w. w) ''ws'' (st_world leftover_state)
             = (Throw (SystemError EISDIR ''unlink'' ''/app/temp/ws/cache''),
                put_dir ''ws'' 10000000 [(''cache'', Directory)] (st_world leftover_state))"
    by (simp add: leftover_state_def cleanup_try_def fs_defs)
  note c = cleanupWorkDir_never_throws_idempotent
             [of "\<lambda>w. w" "\<lambda>w. w" "''ws''" leftover_state]
  from c t have l: "st_console (snd (cleanupWorkDir_among (\<lambda>w. w) (\<lambda>w. w) ''ws'' leftover_state))
                      = st_console leftover_state
                        @ [CleanupError (message (SystemError EISDIR ''unlink'' ''/app/temp/ws/cache''))]"
    by blast
  have e: "st_console leftover_state = []" by (simp add: leftover_state_def)
  show ?thesis
    using wf t c l e by simp
qed

section \<open>Reclamation Sweeper: properties of the sweep\<close>

lemma map_of_sweep_root:
  "map_of (sweep_root now clock f es) n =
     (if n = f then Option.bind (map_of es f) (swept_entry now clock) else map_of es n)"
proof (cases "map_of es f")
  case None
  then show ?thesis by (simp add: sweep_root_def)
next
  case (Some e)
  then show ?thesis
    by (cases e) (auto simp: sweep_root_def delete_conv' update_conv')
qed

lemma wf_sweep_root:
  assumes "distinct (map fst es)" and "list_all (\<lambda>(n, e). wf_root_entry e) es"
  shows "distinct (map fst (sweep_root now clock f es)) \<and>
         list_all (\<lambda>(n, e). wf_root_entry e) (sweep_root now clock f es)"
proof (cases "map_of es f")
  case None
  then show ?thesis using assms by (simp add: sweep_root_def)
next
  case (Some e)
  then have mem: "(f, e) \<in> set es" by (rule map_of_SomeD)
  show ?thesis
  proof (cases e)
    case (RootFile mt)
    then show ?thesis using Some assms by (simp add: sweep_root_def)
  next
    case (RootDir mt l)
    have dl: "distinct (map fst l)"
      using mem RootDir assms(2) by (auto simp: list_all_iff)
    have 1: "distinct (map fst (AList.delete f es))"
      using assms(1) by (rule distinct_delete)
    have 2: "list_all (\<lambda>(n, e). wf_root_entry e) (AList.delete f es)"
      using assms(2) by (auto simp: list_all_iff AList.delete_eq)
    have 3: "distinct (map fst (AList.update f v es))" for v
      using assms(1) by (rule distinct_update)
    have 4: "list_all (\<lambda>(n, e). wf_root_entry e)
               (AList.update f (RootDir mt' (filter (\<lambda>(n, e). is_directory e) l)) es)" for mt'
      using assms(2) dl
      by (induction es) (auto simp: distinct_map_filter)
    show ?thesis
      using Some RootDir 1 2 3 4 assms by (auto simp: sweep_root_def)
  qed
qed

lemma cleanupWorkDir_stale_world:
  assumes wf: "wf_world (st_world st)" and r: "w_root (st_world st) = Some es"
    and m: "map_of es f = Some (RootDir mt l)"
  shows "st_world (snd (cleanupWorkDir f st)) =
           (st_world st)\<lparr>w_root := Some (case swept_entry (mt + 10 * 60 * 1000 + 1) (w_now (st_world st))
                                              (RootDir mt l) of
                                         None \<Rightarrow> AList.delete f es
                                       | Some e' \<Rightarrow> AList.update f e' es)\<rparr>"
proof -
  have o: "open_dir f (st_world st) = Inr (mt, l)"
    using r m by (simp add: open_dir_def)
  have d: "distinct (map fst l)" using wf o by (rule wf_world_listing)
  show ?thesis
  proof (cases "only_files l")
    case True
    then show ?thesis
      using cleanup_try_only_files [OF o d True] r
      by (simp add: cleanupWorkDir_world remove_dir_def)
  next
    case False
    then show ?thesis
      using cleanup_try_nested [OF o d False] r
      by (simp add: cleanupWorkDir_world put_dir_def)
  qed
qed

lemma sweep_entry_effect:
  assumes wf: "wf_world (st_world st)" and r: "w_root (st_world st) = Some es"
  shows "fst (sweep_entry now f st) = Return () \<and>
         st_world (snd (sweep_entry now f st)) = (st_world st)\<lparr>w_root := Some (sweep_root now (w_now (st_world st)) f es)\<rparr>"
proof (cases "map_of es f")
  case None
  then show ?thesis using r
    by (simp add: sweep_entry_def sweep_entry_try_def fs_stat_def sweep_root_def)
next
  case (Some e)
  show ?thesis
  proof (cases e)
    case (RootFile mt)
    then show ?thesis using r Some
      by (simp add: sweep_entry_def sweep_entry_try_def fs_stat_def sweep_root_def)
  next
    case (RootDir mt l)
    show ?thesis
    proof (cases "now - mt > 10 * 60 * 1000")
      case False
      then show ?thesis using r Some RootDir
        by (simp add: sweep_entry_def sweep_entry_try_def fs_stat_def sweep_root_def)
    next
      case True
      obtain c st' where cw: "cleanupWorkDir f st = (c, st')" by (cases "cleanupWorkDir f st")
      have c: "c = Return ()" using cleanupWorkDir_returns [of f st] cw by simp
      have w: "st_world st' = (st_world st)\<lparr>w_root := Some (sweep_root now (w_now (st_world st)) f es)\<rparr>"
        using cleanupWorkDir_stale_world [OF wf r, of f mt l] Some RootDir True cw
        by (simp add: sweep_root_def)
      show ?thesis using r Some RootDir True cw c w
        by (simp add: sweep_entry_def sweep_entry_try_def fs_stat_def)
    qed
  qed
qed

text \<open>A name that is gone when its turn comes is passed over.\<close>

lemma sweep_entry_missing:
  "fs_stat f (st_world st) = Inl e \<Longrightarrow> sweep_entry now f st = (Return (), st)"
  by (simp add: sweep_entry_def sweep_entry_try_def)

lemma sweep_entry_returns: "fst (sweep_entry now f st) = Return ()"
proof (cases "fs_stat f (st_world st)")
  case (Inl e)
  then show ?thesis by (simp add: sweep_entry_def sweep_entry_try_def)
next
  case (Inr s)
  obtain c st' where cw: "cleanupWorkDir f st = (c, st')" by (cases "cleanupWorkDir f st")
  have c: "c = Return ()" using cleanupWorkDir_returns [of f st] cw by simp
  show ?thesis using Inr cw c by (simp add: sweep_entry_def sweep_entry_try_def)
qed

lemma sweep_loop_returns: "fst (sweep_loop now files st) = Return ()"
proof (induction files arbitrary: st)
  case Nil
  then show ?case by simp
next
  case (Cons f files)
  obtain c st' where s: "sweep_entry now f st = (c, st')" by (cases "sweep_entry now f st")
  then have "c = Return ()" using sweep_entry_returns [of now f st] by simp
  then show ?case using s Cons.IH [of st'] by simp
qed

lemma sweep_loop_append:
  "sweep_loop now (xs @ ys) st = sweep_loop now ys (snd (sweep_loop now xs st))"
proof (induction xs arbitrary: st)
  case Nil
  then show ?case by simp
next
  case (Cons f xs)
  obtain c st' where s: "sweep_entry now f st = (c, st')" by (cases "sweep_entry now f st")
  then have "c = Return ()" using sweep_entry_returns [of now f st] by simp
  then show ?case using s Cons.IH [of st'] by simp
qed

lemma sweep_loop_world:
  assumes "wf_world (st_world st)" and "w_root (st_world st) = Some es"
  shows "st_world (snd (sweep_loop now files st)) =
           (st_world st)\<lparr>w_root := Some (fold (sweep_root now (w_now (st_world st))) files es)\<rparr>"
  using assms
proof (induction files arbitrary: st es)
  case Nil
  then show ?case by simp
next
  case (Cons f files)
  obtain c st' where s: "sweep_entry now f st = (c, st')" by (cases "sweep_entry now f st")
  have c: "c = Return ()" using sweep_entry_returns [of now f st] s by simp
  have w': "st_world st' = (st_world st)\<lparr>w_root := Some (sweep_root now (w_now (st_world st)) f es)\<rparr>"
    using sweep_entry_effect [OF Cons.prems, of now f] s by simp
  have wf': "wf_world (st_world st')"
    using Cons.prems wf_sweep_root [of es now "w_now (st_world st)" f] w' by (simp add: wf_world_def)
  have r': "w_root (st_world st') = Some (sweep_root now (w_now (st_world st)) f es)"
    using w' by simp
  show ?case
    using s c Cons.IH [OF wf' r'] w' by simp
qed

lemma map_of_fold_sweep_root:
  "distinct files \<Longrightarrow>
   map_of (fold (sweep_root now clock) files es) n =
     (if n \<in> set files then Option.bind (map_of es n) (swept_entry now clock) else map_of es n)"
proof (induction files arbitrary: es)
  case Nil
  then show ?case by simp
next
  case (Cons f files)
  then show ?case by (auto simp: map_of_sweep_root)
qed

text \<open>
  What a sweep does. It completes normally. Of the entries of \<^verbatim>\<open>TEMP_DIR\<close> it leaves
  untouched every plain file and every directory whose age does not exceed 10 minutes; it
  cleans every directory whose age exceeds 10 minutes with \<open>cleanupWorkDir\<close>, after which
  such a directory is gone when it held plain files only, and otherwise still exists with
  its nested directories. It creates no entry. Whatever happened at the names swept so far,
  the loop goes on with the names that remain.
\<close>

theorem periodic_cleanup_effect:
  assumes "wf_world (st_world st)" and "w_root (st_world st) = Some es"
  shows "fst (periodic_cleanup st) = Return () \<and>
         (\<exists>es'. w_root (st_world (snd (periodic_cleanup st))) = Some es' \<and>
            (\<forall>n. map_of es' n =
                   Option.bind (map_of es n)
                     (swept_entry (w_now (st_world st)) (w_now (st_world st))))) \<and>
         (\<forall>now xs ys s. sweep_loop now (xs @ ys) s = sweep_loop now ys (snd (sweep_loop now xs s)))"
proof -
  let ?now = "w_now (st_world st)"
  let ?files = "map fst es"
  obtain c st' where l: "sweep_loop ?now ?files st = (c, st')"
    by (cases "sweep_loop ?now ?files st")
  have c: "c = Return ()" using sweep_loop_returns [of ?now ?files st] l by simp
  have p: "periodic_cleanup st = (Return (), st')"
    using assms(2) l c by (simp add: periodic_cleanup_def fs_readdir_root_def)
  have w: "st_world st' = (st_world st)\<lparr>w_root := Some (fold (sweep_root ?now ?now) ?files es)\<rparr>"
    using sweep_loop_world [OF assms, of ?now ?files] l by simp
  have d: "distinct ?files" using assms by (simp add: wf_world_def)
  have m: "map_of (fold (sweep_root ?now ?now) ?files es) n =
             Option.bind (map_of es n) (swept_entry ?now ?now)" for n
  proof (cases "n \<in> fst ` set es")
    case True
    then show ?thesis using map_of_fold_sweep_root [OF d, of ?now ?now es n] by simp
  next
    case False
    then have "map_of es n = None" by (simp add: map_of_eq_None_iff)
    then show ?thesis using False map_of_fold_sweep_root [OF d, of ?now ?now es n] by simp
  qed
  show ?thesis
    using p w m by (simp add: sweep_loop_append)
qed

theorem periodic_cleanup_effect_witness:
  "wf_world (st_world leftover_state) \<and>
   fst (periodic_cleanup leftover_state) = Return () \<and>
   (\<exists>es'. w_root (st_world (snd (periodic_cleanup leftover_state))) = Some es' \<and>
      map_of es' ''old'' = None \<and>
      map_of es' ''ws'' = Some (RootDir 10000000 [(''cache'', Directory)]) \<and>
      map_of es' ''fresh'' = Some (RootDir 9500000 [(''program.js'', RegularFile ''z'')]) \<and>
      map_of es' ''notes.txt'' = Some (RootFile 0))"
proof -
  have wf: "wf_world (st_world leftover_state)"
    by (simp add: leftover_state_def wf_world_def)
  have r: "w_root (st_world leftover_state) =
             Some [(''ws'', RootDir 0 [(''program.py'', RegularFile ''x''), (''cache'', Directory)]),
                   (''old'', RootDir 0 [(''Main.java'', RegularFile ''y'')]),
                   (''fresh'', RootDir 9500000 [(''program.js'', RegularFile ''z'')]),
                   (''notes.txt'', RootFile 0)]"
    by (simp add: leftover_state_def)
  have n: "w_now (st_world leftover_state) = 10000000"
    by (simp add: leftover_state_def)
  from periodic_cleanup_effect [OF wf r] obtain es' where
    c: "fst (periodic_cleanup leftover_state) = Return ()" and
    e: "w_root (st_world (snd (periodic_cleanup leftover_state))) = Some es'" and
    m: "\<And>n. map_of es' n =
          Option.bind (map_of [(''ws'', RootDir 0 [(''program.py'', RegularFile ''x''), (''cache'', Directory)]),
                   (''old'', RootDir 0 [(''Main.java'', RegularFile ''y'')]),
                   (''fresh'', RootDir 9500000 [(''program.js'', RegularFile ''z'')]),
                   (''notes.txt'', RootFile 0)] n)
            (swept_entry (w_now (st_world leftover_state)) (w_now (st_world leftover_state)))"
    by blast
  have "map_of es' ''old'' = None"
    and "map_of es' ''ws'' = Some (RootDir 10000000 [(''cache'', Directory)])"
    and "map_of es' ''fresh'' = Some (RootDir 9500000 [(''program.js'', RegularFile ''z'')])"
    and "map_of es' ''notes.txt'' = Some (RootFile 0)"
    by (simp_all add: m n only_files_def has_files_def)
  then show ?thesis using wf c e by blast
qed

text \<open>
  \<^bold>\<open>Claim C8\<close> at a failing input: the directory \<open>ws\<close> is 10000000 ms old and holds a
  nested directory (as a submitted program can leave one). The sweep selects it, but
  \<^verbatim>\<open>fs.unlink\<close> fails on the nested directory, \<open>cleanupWorkDir\<close> swallows the error and
  never reaches \<^verbatim>\<open>fs.rmdir\<close>: after the sweep \<open>ws\<close> still exists, and the console says
  that it was cleaned up. The old directory \<open>old\<close>, which held plain files only, is gone;
  the fresh directory and the plain file are untouched.
\<close>

theorem stale_nested_directory_survives_sweep:
  "w_root (st_world (snd (periodic_cleanup leftover_state)))
     = Some [(''ws'', RootDir 10000000 [(''cache'', Directory)]),
             (''fresh'', RootDir 9500000 [(''program.js'', RegularFile ''z'')]),
             (''notes.txt'', RootFile 0)] \<and>
   st_console (snd (periodic_cleanup leftover_state))
     = [CleanupError (message (SystemError EISDIR ''unlink'' ''/app/temp/ws/cache'')),
        CleanedUp ''ws'', CleanedUp ''old'']"
  by (simp add: leftover_state_def sweep_defs fs_defs)

section \<open>Execution Pipeline: properties of \<open>executeCode\<close>\<close>

lemma step_stdout: "r_stdout (step e s) = r_stdout s @ stdout_of [e]"
  by (cases e) (auto simp: handler_defs Let_def split: option.splits list.splits)

lemma step_stderr: "r_stderr (step e s) = r_stderr s @ stderr_of [e]"
  by (cases e) (auto simp: handler_defs Let_def split: option.splits list.splits)

lemma stdout_of_Cons: "stdout_of (e # es) = stdout_of [e] @ stdout_of es"
  by (cases e) auto

lemma stderr_of_Cons: "stderr_of (e # es) = stderr_of [e] @ stderr_of es"
  by (cases e) auto

lemma run_events_stdout: "r_stdout (run_events es s) = r_stdout s @ stdout_of es"
proof (induction es arbitrary: s)
  case Nil
  then show ?case by simp
next
  case (Cons e es)
  then show ?case
    using stdout_of_Cons [of e es] by (simp add: step_stdout)
qed

lemma run_events_stderr: "r_stderr (run_events es s) = r_stderr s @ stderr_of es"
proof (induction es arbitrary: s)
  case Nil
  then show ?case by simp
next
  case (Cons e es)
  then show ?case
    using stderr_of_Cons [of e es] by (simp add: step_stderr)
qed

lemma session_streams:
  "r_stdout (session inp tmo evs) = stdout_of evs" "r_stderr (session inp tmo evs) = stderr_of evs"
  by (simp_all add: session_def run_events_stdout run_events_stderr send_input_def spawned_def)

lemma within_cap_step: "within_cap s \<Longrightarrow> within_cap (step e s)"
  by (cases e) (auto simp: within_cap_def handler_defs Let_def output_cap_def
                     split: option.splits list.splits)

lemma within_cap_run: "within_cap s \<Longrightarrow> within_cap (run_events es s)"
  by (induction es arbitrary: s) (auto simp: within_cap_step)

lemma within_cap_session: "within_cap (session inp tmo evs)"
  unfolding session_def
  by (rule within_cap_run) (simp add: within_cap_def send_input_def spawned_def)










text \<open>
  \<^bold>\<open>Claim C5\<close>. When the pipeline reaches the run step and the run's session is not
  forced and closes with the exit code \<open>exit\<close>, \<open>executeCode\<close> returns the result whose error is
  \<^verbatim>\<open>null\<close> exactly when \<open>exit\<close> is 0 and otherwise reads \<open>Process exited with code\<close>
  followed by the code; its output and stderr are all the chunks the child wrote on the
  two streams, each within the cap, and its exit code is \<open>exit\<close>.
\<close>

theorem natural_run_result:
  assumes cfg: "LANGUAGE_CONFIG language = Some config"
    and prep: "prepare_workspace uid language config code st = (Return filepath, st1)"
    and comp: "compile_phase run_process uid language config filepath (w_now (st_world st1)) st1
                 = (Return None, st2)"
    and inv: "run_invocation language config (path_join TEMP_DIR uid) filepath code
                = Inr (runCommand, runArgs)"
    and run: "run_process runCommand runArgs (run_options uid config input) (st_world st2)
                = (r_settled (session input tmo (evs @ [CloseEv exit])), w3)"
    and nt: "\<forall>e\<in>set evs. \<not> terminal e"
    and nk: "\<not> r_killed (session input tmo evs)"
  shows "fst (executeCode run_process uid language code input st) =
           Return \<lparr>er_output = stdout_of evs, er_stderr = stderr_of evs,
                   er_error = (if exit = Some 0 then None
                               else Some (''Process exited with code '' @ template_code exit)),
                   er_executionTime = w_now w3 - w_now (st_world st1),
                   er_exitCode = Some exit\<rparr> \<and>
         length (stdout_of evs) \<le> output_cap \<and> length (stderr_of evs) \<le> output_cap"
proof -
  let ?res = "\<lparr>pr_stdout = stdout_of evs, pr_stderr = stderr_of evs, pr_exitCode = exit,
               pr_error = (if exit = Some 0 then None
                           else Some (''Process exited with code '' @ template_code exit))\<rparr>"
  let ?st2' = "st2\<lparr>st_calls := st_calls st2 @ [ExecuteProcess runCommand runArgs]\<rparr>"
  let ?stc = "?st2'\<lparr>st_world := w3\<rparr>"
  have s: "r_settled (session input tmo (evs @ [CloseEv exit])) = Some (Resolved ?res)"
    using natural_close_result [OF nt nk, of exit] by (simp add: session_streams)
  obtain cc st3 where cl: "cleanupWorkDir uid ?stc = (cc, st3)"
    by (cases "cleanupWorkDir uid ?stc")
  have cc: "cc = Return ()" using cleanupWorkDir_returns [of uid ?stc] cl by simp
  have rp: "run_phase run_process uid language config filepath code input (w_now (st_world st1)) st2 =
              (Return \<lparr>er_output = stdout_of evs, er_stderr = stderr_of evs,
                       er_error = (if exit = Some 0 then None
                                   else Some (''Process exited with code '' @ template_code exit)),
                       er_executionTime = w_now w3 - w_now (st_world st1),
                       er_exitCode = Some exit\<rparr>, st3)"
    using inv run s cl cc by (simp add: run_phase_def Let_def)
  have ex: "fst (executeCode run_process uid language code input st) =
              Return \<lparr>er_output = stdout_of evs, er_stderr = stderr_of evs,
                      er_error = (if exit = Some 0 then None
                                  else Some (''Process exited with code '' @ template_code exit)),
                      er_executionTime = w_now w3 - w_now (st_world st1),
                      er_exitCode = Some exit\<rparr>"
    using cfg prep comp rp by (simp add: executeCode_def executeCode_try_def Let_def)
  have "within_cap (session input tmo evs)" by (rule within_cap_session)
  then have "length (stdout_of evs) \<le> output_cap \<and> length (stderr_of evs) \<le> output_cap"
    using nk by (simp add: within_cap_def session_streams)
  then show ?thesis using ex by simp
qed

theorem natural_run_result_witness:
  "LANGUAGE_CONFIG ''python'' = Some python_config \<and>
   \<not> r_killed (session ''7'' 10000 [StdoutData ''partial'']) \<and>
   fst (executeCode exiting_tool ''u1'' ''python'' ''print(1)'' ''7'' empty_state) =
     Return \<lparr>er_output = ''partial'', er_stderr = [],
             er_error = Some ''Process exited with code 3'',
             er_executionTime = 40, er_exitCode = Some (Some 3)\<rparr>"
proof -
  let ?st1 = "\<lparr>st_world = \<lparr>w_root = Some [(''u1'', RootDir 1000 [(''program.py'', RegularFile ''print(1)'')])],
                             w_now = 1000\<rparr>,
               st_console = [], st_calls = [Mkdir ''u1'']\<rparr>"
  have cfg: "LANGUAGE_CONFIG ''python'' = Some python_config"
    by (simp add: LANGUAGE_CONFIG_def)
  have prep: "prepare_workspace ''u1'' ''python'' python_config ''print(1)'' empty_state
                = (Return ''/app/temp/u1/program.py'', ?st1)"
    by (simp add: prepare_workspace_def empty_state_def fs_defs source_filename_def python_config_def
                  template_string_def path_join_def TEMP_DIR_def Let_def)
  have comp: "compile_phase exiting_tool ''u1'' ''python'' python_config ''/app/temp/u1/program.py''
                (w_now (st_world ?st1)) ?st1 = (Return None, ?st1)"
    by (simp add: compile_phase_def python_config_def)
  have inv: "run_invocation ''python'' python_config (path_join TEMP_DIR ''u1'')
               ''/app/temp/u1/program.py'' ''print(1)''
               = Inr (''python3'', [''-u'', ''/app/temp/u1/program.py''])"
    by (simp add: run_invocation_def python_config_def)
  have run: "exiting_tool ''python3'' [''-u'', ''/app/temp/u1/program.py'']
               (run_options ''u1'' python_config ''7'') (st_world ?st1)
               = (r_settled (session ''7'' 10000 ([StdoutData ''partial''] @ [CloseEv (Some 3)])),
                  \<lparr>w_root = Some [(''u1'', RootDir 1000 [(''program.py'', RegularFile ''print(1)'')])],
                   w_now = 1040\<rparr>)"
    by (simp add: exiting_tool_def intended_runner_def executeProcess_with_def
                  spawn_options_literal_def run_options_def input_of_def timeout_of_def
                  python_config_def)
  have nt: "\<forall>e\<in>set [StdoutData ''partial'']. \<not> terminal e" by simp
  have nk: "\<not> r_killed (session ''7'' 10000 [StdoutData ''partial''])"
    by (simp add: session_def spawned_def send_input_def handler_defs Let_def)
  show ?thesis
    using cfg nk natural_run_result [where run_process = exiting_tool, OF cfg prep comp inv run nt nk]
    by (simp add: template_code_def string_of_int_def string_of_nat.simps digit_char_def)
qed


text \<open>
  A language whose property read gives \<^verbatim>\<open>undefined\<close> is rejected by the route and by
  \<open>executeCode\<close> with no call and no change of state.
\<close>

lemma undefined_language_rejected:
  assumes "LANGUAGE_CONFIG language = None"
  shows "executeCode run_process uid language code input st =
           (Throw (Error (''Unsupported language: '' @ language)), st)"
    and "language \<noteq> [] \<Longrightarrow> code \<noteq> [] \<Longrightarrow>
         post_execute run_process uid
           \<lparr>rq_language = Some language, rq_code = Some code, rq_input = inp\<rparr> st =
           (Some \<lparr>status = 400,
                  body = ErrorBody (''Unsupported language: '' @ language
                                    @ ''. Supported: cpp, java, python, javascript'')\<rparr>, st)"
  using assms by (simp_all add: executeCode_def post_execute_def)

lemma LANGUAGE_CONFIG_None_iff:
  "LANGUAGE_CONFIG language = None \<longleftrightarrow>
     language \<notin> set own_keys \<and> language \<notin> set object_prototype_properties"
  by (simp add: LANGUAGE_CONFIG_def own_keys_def)

text \<open>
  \<^bold>\<open>Claim C6\<close> at a failing input: the language id \<open>constructor\<close> is no key of the
  registry, yet \<^verbatim>\<open>LANGUAGE_CONFIG['constructor']\<close> is the inherited constructor function,
  which is truthy. Neither guard rejects the request: the workspace \<open>u1\<close> is created and
  \<open>program.undefined\<close> is written into it, then reading \<^verbatim>\<open>config.run.command\<close> throws, the
  workspace is cleaned up, and the route answers 500 with the message of the \<open>TypeError\<close>.
\<close>

theorem inherited_key_creates_workspace:
  "''constructor'' \<notin> set own_keys \<and>
   prepare_workspace ''u1'' ''constructor'' inherited_object ''x'' empty_state =
     (Return ''/app/temp/u1/program.undefined'',
      \<lparr>st_world = \<lparr>w_root = Some [(''u1'', RootDir 1000 [(''program.undefined'', RegularFile ''x'')])],
                    w_now = 1000\<rparr>,
       st_console = [], st_calls = [Mkdir ''u1'']\<rparr>) \<and>
   executeCode run_process ''u1'' ''constructor'' ''x'' [] empty_state =
     (Throw (TypeError ''Cannot read properties of undefined (reading 'command')''),
      \<lparr>st_world = \<lparr>w_root = Some [], w_now = 1000\<rparr>,
       st_console = [], st_calls = [Mkdir ''u1'']\<rparr>) \<and>
   fst (post_execute run_process ''u1''
          \<lparr>rq_language = Some ''constructor'', rq_code = Some ''x'', rq_input = None\<rparr> empty_state) =
     Some \<lparr>status = 500,
           body = ErrorBody ''Cannot read properties of undefined (reading 'command')''\<rparr>"
  by (simp add: own_keys_def post_execute_def executeCode_def executeCode_try_def
                prepare_workspace_def compile_phase_def run_phase_def run_invocation_def
                LANGUAGE_CONFIG_def object_prototype_properties_def inherited_object_def
                source_filename_def template_string_def path_join_def TEMP_DIR_def
                empty_state_def cleanupWorkDir_def cleanupWorkDir_among_def cleanup_try_def
                fs_defs Let_def)

text \<open>
  With \<open>executeProcess\<close> as declared, every request for a registered language ends the same
  way, whatever the operating system would do with the child: here the Python request.
\<close>

lemma declared_runner_fails_request:
  "fst (post_execute (executeProcess os) ''u1''
          \<lparr>rq_language = Some ''python'', rq_code = Some ''print(1)'', rq_input = None\<rparr> empty_state) =
     Some \<lparr>status = 500, body = ErrorBody ''Cannot access 'process' before initialization''\<rparr> \<and>
   st_calls (snd (post_execute (executeProcess os) ''u1''
          \<lparr>rq_language = Some ''python'', rq_code = Some ''print(1)'', rq_input = None\<rparr> empty_state)) =
     [Mkdir ''u1'', ExecuteProcess ''python3'' [''-u'', ''/app/temp/u1/program.py'']]"
  by (simp add: post_execute_def executeCode_def executeCode_try_def
                prepare_workspace_def compile_phase_def run_phase_def run_invocation_def
                run_options_def LANGUAGE_CONFIG_def python_config_def
                source_filename_def template_string_def path_join_def TEMP_DIR_def
                empty_state_def cleanupWorkDir_def cleanupWorkDir_among_def cleanup_try_def
                executeProcess_def executeProcess_with_def spawn_options_literal_def
                fs_defs Let_def)


end
